theory Spec2Isabelle
  imports Main "HOL-Library.Sublist"
begin

section \<open>JavaScript values\<close>

text \<open>
  The request body, the provider's parsed output, the error bodies and the stored section
  contents are untyped JSON at run time (\<^verbatim>\<open>any\<close> in the source). The program
  never computes with a number: it prints it, tests its truthiness or hands it on. A number
  is therefore given by the text JavaScript prints for it (\<^verbatim>\<open>0\<close>, \<^verbatim>\<open>-1.5\<close>,
  \<^verbatim>\<open>1e+21\<close>), which determines all of these. An object is the list of its own
  properties.
\<close>

datatype jsval =
    JUndefined
  | JNull
  | JBool bool
  | JNum string
  | JStr string
  | JArr "jsval list"
  | JObj "(string \<times> jsval) list"

text \<open>A thrown value: the error's constructor name and its \<^verbatim>\<open>message\<close> property.\<close>

datatype js_error = JsError string jsval

fun message :: "js_error \<Rightarrow> jsval" where
  "message (JsError n m) = m"

text \<open>
  The TypeError of reading a property of null or undefined; the program never reads its
  message, whose wording is the engine's.
\<close>

definition TypeError :: js_error where
  "TypeError = JsError ''TypeError'' (JStr ''Cannot read properties of null or undefined'')"

text \<open>Truthiness, as tested by \<^verbatim>\<open>?:\<close>, \<^verbatim>\<open>||\<close> and \<^verbatim>\<open>if\<close>.\<close>

fun truthy :: "jsval \<Rightarrow> bool" where
  "truthy JUndefined = False"
| "truthy JNull = False"
| "truthy (JBool b) = b"
| "truthy (JNum p) = (p \<noteq> ''0'' \<and> p \<noteq> ''NaN'')"
| "truthy (JStr s) = (s \<noteq> [])"
| "truthy (JArr xs) = True"
| "truthy (JObj kvs) = True"

definition nullish :: "jsval \<Rightarrow> bool" where
  "nullish v = (v = JUndefined \<or> v = JNull)"

text \<open>\<^verbatim>\<open>a || b\<close>\<close>

definition orelse :: "jsval \<Rightarrow> jsval \<Rightarrow> jsval" where
  "orelse a b = (if truthy a then a else b)"

text \<open>
  \<^verbatim>\<open>v.k\<close> on a value that is neither null nor undefined, for the property names the
  program reads (none of them is a property of a string, number, boolean or array).
\<close>

fun get_field :: "jsval \<Rightarrow> string \<Rightarrow> jsval" where
  "get_field (JObj kvs) k = (case map_of kvs k of Some v \<Rightarrow> v | None \<Rightarrow> JUndefined)"
| "get_field v k = JUndefined"

text \<open>\<^verbatim>\<open>v?.k\<close>\<close>

definition opt_field :: "jsval \<Rightarrow> string \<Rightarrow> jsval" where
  "opt_field v k = (if nullish v then JUndefined else get_field v k)"

subsection \<open>Conversion to string in a template literal\<close>

text \<open>
  The TypeError of converting an object that has no usable \<^verbatim>\<open>toString\<close> and
  \<^verbatim>\<open>valueOf\<close>; its message reaches the caller when the handler catches it.
\<close>

definition PrimitiveError :: js_error where
  "PrimitiveError = JsError ''TypeError'' (JStr ''Cannot convert object to primitive value'')"

text \<open>
  \<^verbatim>\<open>${v}\<close> and \<^verbatim>\<open>String(v)\<close>. An object prints as \<^verbatim>\<open>[object Object]\<close> through the
  inherited \<^verbatim>\<open>toString\<close>. An own property named \<^verbatim>\<open>toString\<close> hides that method and,
  coming from JSON, is not callable; the inherited \<^verbatim>\<open>valueOf\<close> (or an own one, not
  callable either) yields no primitive, and the conversion throws. An array joins the
  conversions of its elements with commas, null and undefined elements printing as nothing.
\<close>

fun toString_js :: "jsval \<Rightarrow> js_error + string"
  and join_js :: "jsval list \<Rightarrow> js_error + string" where
  "toString_js JUndefined = Inr ''undefined''"
| "toString_js JNull = Inr ''null''"
| "toString_js (JBool b) = Inr (if b then ''true'' else ''false'')"
| "toString_js (JNum p) = Inr p"
| "toString_js (JStr s) = Inr s"
| "toString_js (JArr xs) = join_js xs"
| "toString_js (JObj kvs) =
     (if map_of kvs ''toString'' \<noteq> None then Inl PrimitiveError else Inr ''[object Object]'')"
| "join_js [] = Inr []"
| "join_js (x # xs) =
     (case (if x = JUndefined \<or> x = JNull then Inr [] else toString_js x) of
        Inl err \<Rightarrow> Inl err
      | Inr a \<Rightarrow>
          if xs = [] then Inr a
          else (case join_js xs of Inl err \<Rightarrow> Inl err | Inr b \<Rightarrow> Inr (a @ '','' @ b)))"

text \<open>Sequencing of steps that may throw.\<close>

definition and_then :: "js_error + 'a \<Rightarrow> ('a \<Rightarrow> js_error + 'b) \<Rightarrow> js_error + 'b" where
  "and_then r f = (case r of Inl err \<Rightarrow> Inl err | Inr x \<Rightarrow> f x)"

section \<open>The Generation Proxy\<close>

subsection \<open>Output schemas\<close>

datatype schema =
    STRING
  | STRING_ENUM "string list"
  | OBJECT "(string \<times> schema) list" "string list"
  | ARRAY schema

definition WORD_SCHEMA :: schema where
  "WORD_SCHEMA = OBJECT
     [(''word'', STRING), (''meaning'', STRING), (''antonym'', STRING),
      (''synonym'', STRING), (''example'', STRING), (''pronunciation'', STRING)]
     [''word'', ''meaning'', ''antonym'', ''synonym'', ''example'']"

definition THOUGHT_SCHEMA :: schema where
  "THOUGHT_SCHEMA = OBJECT
     [(''quote'', STRING), (''author'', STRING), (''bio'', STRING)]
     [''quote'', ''author'']"

definition NEWS_SCHEMA :: schema where
  "NEWS_SCHEMA = ARRAY (OBJECT
     [(''title'', STRING), (''summary'', STRING),
      (''category'', STRING_ENUM [''International'', ''National'', ''Sports''])]
     [''title'', ''summary'', ''category''])"

definition SPECIAL_ITEM_SCHEMA :: schema where
  "SPECIAL_ITEM_SCHEMA = OBJECT
     [(''type'', STRING), (''title'', STRING), (''content'', STRING), (''answer'', STRING)]
     [''type'', ''content'']"

definition CELEBRATION_SCHEMA :: schema where
  "CELEBRATION_SCHEMA = OBJECT
     [(''title'', STRING), (''description'', STRING)]
     [''title'', ''description'']"

subsection \<open>The environment of the handler\<close>

text \<open>
  One call of \<^verbatim>\<open>ai.models.generateContent\<close>: the model name, the text of the single
  part of \<^verbatim>\<open>contents\<close>, and the two entries of \<^verbatim>\<open>config\<close>
  (\<open>None\<close> is an undefined \<^verbatim>\<open>responseSchema\<close>).
\<close>

record provider_call =
  model :: string
  contents :: string
  responseMimeType :: string
  responseSchema :: "schema option"

text \<open>The call throws, or returns a response whose \<^verbatim>\<open>text\<close> is a string or undefined.\<close>

datatype provider_result = Throws js_error | Reply "string option"

text \<open>
  What the handler takes from outside: the provider, the text that
  \<^verbatim>\<open>Math.random().toString(36).substring(7)\<close> yields, and the platform's
  \<^verbatim>\<open>JSON.parse\<close> and \<^verbatim>\<open>JSON.stringify\<close>.
\<close>

record env =
  generateContent :: "provider_call \<Rightarrow> provider_result"
  randomness :: string
  json_parse :: "string \<Rightarrow> js_error + jsval"
  json_stringify :: "jsval \<Rightarrow> string"

text \<open>
  \<^verbatim>\<open>JSON.parse\<close>: the two literals the handler itself supplies denote the empty array
  and the empty object; every other text is left to the platform's parser.
\<close>

definition JSON_parse :: "(string \<Rightarrow> js_error + jsval) \<Rightarrow> string \<Rightarrow> js_error + jsval" where
  "JSON_parse platform_parse s =
     (if s = ''[]'' then Inr (JArr [])
      else if s = ''{}'' then Inr (JObj [])
      else platform_parse s)"

text \<open>\<^verbatim>\<open>response.text || d\<close>\<close>

definition text_or :: "string option \<Rightarrow> string \<Rightarrow> string" where
  "text_or t d = (case t of None \<Rightarrow> d | Some s \<Rightarrow> if s = [] then d else s)"

record request =
  http_method :: string
  body :: jsval

text \<open>
  The handler answers through \<^verbatim>\<open>res.status(n).json(v)\<close>, or an exception leaves it
  (the destructuring of \<^verbatim>\<open>req.body\<close> stands before the \<^verbatim>\<open>try\<close>).
\<close>

datatype outcome = Response nat jsval | Uncaught js_error

subsection \<open>Prompts\<close>

definition nl :: string where
  "nl = [CHR 0x0A]"

definition ind :: string where
  "ind = ''      ''"

definition suggestTopics_prompt :: "jsval \<Rightarrow> jsval \<Rightarrow> js_error + string" where
  "suggestTopics_prompt date language =
     (let langText = (if language = JStr ''Hindi'' then ''in Hindi script (Devanagari)'' else ''in English'')
      in and_then (toString_js date) (\<lambda>d. Inr
           (''Suggest exactly 5 interesting and diverse topics for a school assembly special segment based on the date ''
            @ d
            @ ''. These could be related to historical events, environmental days, science, or moral values relevant to this time of year. Return the result ''
            @ langText @ '' as a simple JSON array of 5 strings.'')))"

definition topicText :: "jsval \<Rightarrow> js_error + string" where
  \<open>topicText options =
     (if truthy (opt_field options ''customTopic'')
      then and_then (toString_js (get_field options ''customTopic''))
             (\<lambda>t. Inr (''on the topic: "'' @ t @ ''"''))
      else Inr [])\<close>

definition lengthText :: "jsval \<Rightarrow> string" where
  "lengthText options =
     (if opt_field options ''contentLength'' = JStr ''Long''
      then ''detailed and long (about 250 words)''
      else ''concise and short (about 100 words)'')"

text \<open>
  The \<^verbatim>\<open>switch (section)\<close>: the schema and the task instruction. The case of the
  special item converts the custom topic and the type of the segment, which may throw.
\<close>

definition section_switch :: "jsval \<Rightarrow> jsval \<Rightarrow> js_error + schema option \<times> string" where
  \<open>section_switch section options =
     (if section = JStr ''word'' then
        Inr (Some WORD_SCHEMA,
         ''Generate an advanced but student-friendly English word with its meaning, antonym (opposite), synonym, and an example sentence.'')
      else if section = JStr ''thought'' then
        Inr (Some THOUGHT_SCHEMA,
         ''Generate a short motivational quote from a famous personality. Include the author's name and a very brief 1-line bio.'')
      else if section = JStr ''news'' then
        Inr (Some NEWS_SCHEMA,
         ''Generate 9 news items: 3 International, 3 National (India), and 3 Sports. Each should have a title, a 2-line summary, and a category label.'')
      else if section = JStr ''special_item'' then
        and_then (topicText options) (\<lambda>topic.
        and_then (toString_js (orelse (opt_field options ''specialType'') (JStr ''Speech''))) (\<lambda>kind.
          Inr (Some SPECIAL_ITEM_SCHEMA,
           ''Generate a special assembly segment of type "'' @ kind
           @ ''" '' @ topic @ ''. The content should be '' @ lengthText options
           @ ''. If it's a quiz, include the answer.'')))
      else if section = JStr ''celebration'' then
        Inr (Some CELEBRATION_SCHEMA,
         ''Tell me what is celebrated or special about this specific date (festivals, international days, etc.). Provide a title and a simple description.'')
      else Inr (None, []))\<close>

definition GUARD_HEAD :: string where
  "GUARD_HEAD = ''CRITICAL REPETITION GUARD: The user is requesting NEW content. DO NOT repeat, rephrase, or reuse any part of the following previous content: ''"

definition GUARD_TAIL :: string where
  "GUARD_TAIL = ''. Your response MUST be 100% unique and different from this.''"

definition avoidRepetitionPrompt :: "env \<Rightarrow> jsval \<Rightarrow> string" where
  "avoidRepetitionPrompt e options =
     (if truthy (opt_field options ''previousContent'')
      then nl @ nl @ GUARD_HEAD @ json_stringify e (get_field options ''previousContent'') @ GUARD_TAIL
      else [])"

definition LANGUAGE_RULE :: string where
  \<open>LANGUAGE_RULE = ''CRITICAL LANGUAGE RULE: If Primary Language is "Hindi", you MUST generate ALL text content (titles, summaries, meanings, quotes, stories, etc.) in Hindi script (Devanagari). For the "Word of the Day", provide a Hindi word with its Hindi meaning and usage.''\<close>

text \<open>
  The template of the prompt, on the texts its embedded expressions have been converted to.
\<close>

definition prompt_head :: "string \<Rightarrow> string \<Rightarrow> string" where
  "prompt_head d f =
     ''Generate school assembly content for the date: '' @ d @ ''.'' @ nl
     @ ind @ ''Target Audience Difficulty Level: '' @ f @ ''.'' @ nl"

definition prompt_tail :: "string \<Rightarrow> string" where
  "prompt_tail r =
     nl
     @ ind @ nl
     @ ind @ ''Randomness Factor: '' @ r @ nl
     @ ind @ nl
     @ ind @ ''Safety Rules:'' @ nl
     @ ind @ ''- Student-safe content only.'' @ nl
     @ ind @ ''- No political debate, violence, or adult topics.'' @ nl
     @ ind @ ''- Positive and educational tone.'' @ nl
     @ ind @ nl
     @ ind @ ''Return the response in the specified JSON format.''"

definition prompt_text ::
  "string \<Rightarrow> string \<Rightarrow> string \<Rightarrow> string \<Rightarrow> string \<Rightarrow> string \<Rightarrow> string \<Rightarrow> string" where
  "prompt_text d f l s sectionPrompt avoid r =
     prompt_head d f
     @ ind @ ''Primary Language: '' @ l @ ''.'' @ nl
     @ ind @ nl
     @ ind @ LANGUAGE_RULE @ nl
     @ ind @ nl
     @ ind @ ''Section: '' @ s @ ''.'' @ nl
     @ ind @ ''Task: '' @ sectionPrompt @ avoid
     @ prompt_tail r"

text \<open>
  The template literal, after the \<^verbatim>\<open>switch\<close> has given \<open>sectionPrompt\<close>: the embedded
  values are converted in the order they stand in.
\<close>

definition template ::
  "env \<Rightarrow> jsval \<Rightarrow> jsval \<Rightarrow> jsval \<Rightarrow> jsval \<Rightarrow> jsval \<Rightarrow> string \<Rightarrow> js_error + string" where
  "template e section date difficulty language options sectionPrompt =
     and_then (toString_js date) (\<lambda>d.
     and_then (toString_js difficulty) (\<lambda>f.
     and_then (toString_js language) (\<lambda>l.
     and_then (toString_js section) (\<lambda>s.
       Inr (prompt_text d f l s sectionPrompt (avoidRepetitionPrompt e options) (randomness e))))))"

definition generateSection_prompt ::
  "env \<Rightarrow> jsval \<Rightarrow> jsval \<Rightarrow> jsval \<Rightarrow> jsval \<Rightarrow> jsval \<Rightarrow> js_error + string" where
  "generateSection_prompt e section date difficulty language options =
     and_then (section_switch section options) (\<lambda>sw.
       template e section date difficulty language options (snd sw))"

subsection \<open>The handler\<close>

definition error_body :: "jsval \<Rightarrow> jsval" where
  "error_body m = JObj [(''error'', m)]"

text \<open>The \<^verbatim>\<open>catch\<close> block.\<close>

definition caught :: "js_error \<Rightarrow> outcome" where
  "caught err = Response 500 (error_body (orelse (message err) (JStr ''Internal Server Error'')))"

text \<open>
  The provider call of a mode and what follows it inside the \<^verbatim>\<open>try\<close>: the parsed text
  is sent with status 200; \<open>d\<close> is the literal parsed when the text is empty or undefined.
\<close>

definition call_provider :: "env \<Rightarrow> provider_call \<Rightarrow> string \<Rightarrow> outcome" where
  "call_provider e c d =
     (case generateContent e c of
        Throws err \<Rightarrow> caught err
      | Reply t \<Rightarrow>
          (case JSON_parse (json_parse e) (text_or t d) of
             Inl err \<Rightarrow> caught err
           | Inr v \<Rightarrow> Response 200 v))"

text \<open>The call of each mode; building its prompt may throw.\<close>

definition suggestTopics_call :: "jsval \<Rightarrow> js_error + provider_call" where
  "suggestTopics_call b =
     and_then (suggestTopics_prompt (get_field b ''date'') (get_field b ''language'')) (\<lambda>p. Inr
       \<lparr>model = ''gemini-3-flash-preview'',
        contents = p,
        responseMimeType = ''application/json'',
        responseSchema = Some (ARRAY STRING)\<rparr>)"

definition generateSection_call :: "env \<Rightarrow> jsval \<Rightarrow> js_error + provider_call" where
  "generateSection_call e b =
     and_then (section_switch (get_field b ''section'') (get_field b ''options'')) (\<lambda>sw.
     and_then (template e (get_field b ''section'') (get_field b ''date'')
        (get_field b ''difficulty'') (get_field b ''language'') (get_field b ''options'') (snd sw)) (\<lambda>p. Inr
       \<lparr>model = ''gemini-3-flash-preview'',
        contents = p,
        responseMimeType = ''application/json'',
        responseSchema = fst sw\<rparr>))"

text \<open>
  The handler returns the provider calls it made, in order, and how it ended. An exception
  while the prompt is built is caught like one of the provider call, before any call.
\<close>

definition handler :: "env \<Rightarrow> request \<Rightarrow> provider_call list \<times> outcome" where
  "handler e req =
     (if http_method req \<noteq> ''POST'' then
        ([], Response 405 (error_body (JStr ''Method not allowed'')))
      else if nullish (body req) then
        ([], Uncaught TypeError)
      else if get_field (body req) ''type'' = JStr ''suggestTopics'' then
        (case suggestTopics_call (body req) of
           Inl err \<Rightarrow> ([], caught err)
         | Inr c \<Rightarrow> ([c], call_provider e c ''[]''))
      else if get_field (body req) ''type'' = JStr ''generateSection'' then
        (case generateSection_call e (body req) of
           Inl err \<Rightarrow> ([], caught err)
         | Inr c \<Rightarrow> ([c], call_provider e c ''{}''))
      else
        ([], Response 400 (error_body (JStr ''Invalid request type''))))"

subsection \<open>Observations on a run of the handler\<close>

text \<open>
  The exception, if any, raised inside the \<^verbatim>\<open>try\<close> by the provider call or by parsing
  the text it returned.
\<close>

definition thrown_in_try :: "env \<Rightarrow> provider_call \<Rightarrow> string \<Rightarrow> js_error option" where
  "thrown_in_try e c d =
     (case generateContent e c of
        Throws err \<Rightarrow> Some err
      | Reply t \<Rightarrow>
          (case JSON_parse (json_parse e) (text_or t d) of
             Inl err \<Rightarrow> Some err
           | Inr v \<Rightarrow> None))"

text \<open>The HTTP status of a response.\<close>

fun status :: "outcome \<Rightarrow> nat option" where
  "status (Response n v) = Some n"
| "status (Uncaught err) = None"

text \<open>The five section names the \<^verbatim>\<open>switch\<close> has a case for.\<close>

definition recognised :: "jsval \<Rightarrow> bool" where
  "recognised section =
     (section = JStr ''word'' \<or> section = JStr ''thought'' \<or> section = JStr ''news''
      \<or> section = JStr ''special_item'' \<or> section = JStr ''celebration'')"

text \<open>Whether a value converts to a string, and the text it converts to, if any.\<close>

definition convertible :: "jsval \<Rightarrow> bool" where
  "convertible v = (case toString_js v of Inl err \<Rightarrow> False | Inr t \<Rightarrow> True)"

definition texts_of :: "jsval \<Rightarrow> string list" where
  "texts_of v = (case toString_js v of Inl err \<Rightarrow> [] | Inr t \<Rightarrow> [t])"

text \<open>
  The texts a \<^verbatim>\<open>generateSection\<close> prompt takes from the request, and the random suffix.
\<close>

definition request_texts ::
  "env \<Rightarrow> jsval \<Rightarrow> jsval \<Rightarrow> jsval \<Rightarrow> jsval \<Rightarrow> jsval \<Rightarrow> string list" where
  "request_texts e section date difficulty language options =
     texts_of date @ texts_of difficulty @ texts_of language @ texts_of section
     @ texts_of (orelse (opt_field options ''specialType'') (JStr ''Speech''))
     @ texts_of (opt_field options ''customTopic'')
     @ [randomness e]"

section \<open>The data model\<close>

datatype Difficulty = Primary | Middle | Senior

datatype Language = English | Hindi

datatype SpecialItemType = Speech | Fact | Quiz | Important_Day | Moral_Story

datatype ContentLength = Short | Long

text \<open>The five section names of the client's \<^verbatim>\<open>section\<close> parameter.\<close>

datatype Section = SecWord | SecThought | SecNews | SecSpecialItem | SecCelebration

text \<open>The string literal each member of these unions is at run time.\<close>

fun Difficulty_name :: "Difficulty \<Rightarrow> string" where
  "Difficulty_name Primary = ''Primary''"
| "Difficulty_name Middle = ''Middle''"
| "Difficulty_name Senior = ''Senior''"

fun Language_name :: "Language \<Rightarrow> string" where
  "Language_name English = ''English''"
| "Language_name Hindi = ''Hindi''"

fun SpecialItemType_name :: "SpecialItemType \<Rightarrow> string" where
  "SpecialItemType_name Speech = ''Speech''"
| "SpecialItemType_name Fact = ''Fact''"
| "SpecialItemType_name Quiz = ''Quiz''"
| "SpecialItemType_name Important_Day = ''Important Day''"
| "SpecialItemType_name Moral_Story = ''Moral Story''"

fun ContentLength_name :: "ContentLength \<Rightarrow> string" where
  "ContentLength_name Short = ''Short''"
| "ContentLength_name Long = ''Long''"

fun section_name :: "Section \<Rightarrow> string" where
  "section_name SecWord = ''word''"
| "section_name SecThought = ''thought''"
| "section_name SecNews = ''news''"
| "section_name SecSpecialItem = ''special_item''"
| "section_name SecCelebration = ''celebration''"

text \<open>
  The aggregate. A section's content is the JSON the Proxy returned, stored as it came
  (\<^verbatim>\<open>Promise<any>\<close>); \<open>JUndefined\<close> is an absent field.
\<close>

record AssemblyData =
  word :: jsval
  thought :: jsval
  news :: jsval
  special_item :: jsval
  celebration :: jsval
  suggested_topics :: jsval
  timestamp :: string

record AppSettings =
  difficulty :: Difficulty
  language :: Language
  themeColor :: string
  isDarkMode :: bool

text \<open>\<^verbatim>\<open>data[section]\<close>\<close>

fun get_section :: "Section \<Rightarrow> AssemblyData \<Rightarrow> jsval" where
  "get_section SecWord d = word d"
| "get_section SecThought d = thought d"
| "get_section SecNews d = news d"
| "get_section SecSpecialItem d = special_item d"
| "get_section SecCelebration d = celebration d"

text \<open>\<^verbatim>\<open>{ ...prev, [section]: result }\<close>\<close>

fun set_section :: "Section \<Rightarrow> jsval \<Rightarrow> AssemblyData \<Rightarrow> AssemblyData" where
  "set_section SecWord v d = d\<lparr>word := v\<rparr>"
| "set_section SecThought v d = d\<lparr>thought := v\<rparr>"
| "set_section SecNews v d = d\<lparr>news := v\<rparr>"
| "set_section SecSpecialItem v d = d\<lparr>special_item := v\<rparr>"
| "set_section SecCelebration v d = d\<lparr>celebration := v\<rparr>"

section \<open>The Generation Client\<close>

record fetch_request =
  url :: string
  fetch_method :: string
  headers :: "(string \<times> string) list"
  fetch_body :: string

text \<open>
  A response as the client reads it: the \<^verbatim>\<open>ok\<close> flag and what \<^verbatim>\<open>response.json()\<close>
  settles to (it rejects when the body is not JSON).
\<close>

record http_response =
  ok :: bool
  json :: "js_error + jsval"

text \<open>The browser side: \<^verbatim>\<open>fetch\<close> (which may reject) and \<^verbatim>\<open>JSON.stringify\<close>.\<close>

record browser =
  fetch :: "fetch_request \<Rightarrow> js_error + http_response"
  stringify :: "jsval \<Rightarrow> string"

definition post_json :: "browser \<Rightarrow> jsval \<Rightarrow> fetch_request" where
  "post_json br v =
     \<lparr>url = ''/api/gemini'', fetch_method = ''POST'',
      headers = [(''Content-Type'', ''application/json'')],
      fetch_body = stringify br v\<rparr>"

definition generateSection_request ::
  "browser \<Rightarrow> Section \<Rightarrow> string \<Rightarrow> Difficulty \<Rightarrow> Language \<Rightarrow> jsval \<Rightarrow> fetch_request" where
  "generateSection_request br s date d l options =
     post_json br (JObj
       [(''type'', JStr ''generateSection''),
        (''section'', JStr (section_name s)),
        (''date'', JStr date),
        (''difficulty'', JStr (Difficulty_name d)),
        (''language'', JStr (Language_name l)),
        (''options'', options)])"

definition suggestTopics_request :: "browser \<Rightarrow> string \<Rightarrow> Language \<Rightarrow> fetch_request" where
  "suggestTopics_request br date l =
     post_json br (JObj
       [(''type'', JStr ''suggestTopics''),
        (''date'', JStr date),
        (''language'', JStr (Language_name l))])"

text \<open>\<^verbatim>\<open>new Error(x)\<close>: the message is \<open>x\<close> converted to a string, which may throw.\<close>

definition new_Error :: "jsval \<Rightarrow> js_error + js_error" where
  "new_Error x = and_then (toString_js x) (\<lambda>m. Inr (JsError ''Error'' (JStr m)))"

text \<open>
  What both operations do with the settled \<^verbatim>\<open>fetch\<close>; \<open>generic\<close> is the operation's
  fallback message. \<open>Inl\<close> is the rejection of the returned promise.
\<close>

definition read_response :: "string \<Rightarrow> js_error + http_response \<Rightarrow> js_error + jsval" where
  "read_response generic r =
     (case r of
        Inl err \<Rightarrow> Inl err
      | Inr response \<Rightarrow>
          if \<not> ok response then
            (case json response of
               Inl err \<Rightarrow> Inl err
             | Inr error \<Rightarrow>
                 if nullish error then Inl TypeError
                 else (case new_Error (orelse (get_field error ''error'') (JStr generic)) of
                         Inl err \<Rightarrow> Inl err
                       | Inr thrown \<Rightarrow> Inl thrown))
          else json response)"

definition generateSection ::
  "browser \<Rightarrow> Section \<Rightarrow> string \<Rightarrow> Difficulty \<Rightarrow> Language \<Rightarrow> jsval \<Rightarrow> js_error + jsval" where
  "generateSection br s date d l options =
     read_response ''Failed to generate content''
       (fetch br (generateSection_request br s date d l options))"

definition suggestTopics :: "browser \<Rightarrow> string \<Rightarrow> Language \<Rightarrow> js_error + jsval" where
  "suggestTopics br date l =
     read_response ''Failed to suggest topics'' (fetch br (suggestTopics_request br date l))"

section \<open>The application shell\<close>

subsection \<open>Initial state from local storage\<close>

text \<open>
  \<^verbatim>\<open>localStorage.getItem\<close> yields the stored text or null; the initialisers return the
  parsed value unchecked, so their result is a JSON value. \<open>now\<close> is
  \<^verbatim>\<open>new Date().toISOString()\<close>.
\<close>

definition default_settings :: jsval where
  "default_settings = JObj
     [(''difficulty'', JStr ''Middle''),
      (''language'', JStr ''English''),
      (''themeColor'', JStr ''#6366f1''),
      (''isDarkMode'', JBool True)]"

definition init_data ::
  "(string \<Rightarrow> js_error + jsval) \<Rightarrow> string \<Rightarrow> (string \<rightharpoonup> string) \<Rightarrow> js_error + jsval" where
  "init_data platform_parse now localStorage =
     (case localStorage ''assembly_data_v2'' of
        None \<Rightarrow> Inr (JObj [(''timestamp'', JStr now)])
      | Some saved \<Rightarrow>
          if saved \<noteq> [] then JSON_parse platform_parse saved
          else Inr (JObj [(''timestamp'', JStr now)]))"

definition init_settings ::
  "(string \<Rightarrow> js_error + jsval) \<Rightarrow> (string \<rightharpoonup> string) \<Rightarrow> js_error + jsval" where
  "init_settings platform_parse localStorage =
     (case localStorage ''assembly_settings_v2'' of
        None \<Rightarrow> Inr default_settings
      | Some saved \<Rightarrow>
          if saved \<noteq> [] then JSON_parse platform_parse saved
          else Inr default_settings)"

subsection \<open>State\<close>

record app_state =
  data :: AssemblyData
  loadingSections :: "string \<rightharpoonup> bool"
  error :: "string option"
  selectedDate :: string
  isSidebarOpen :: bool
  isOnline :: bool
  isSpeaking :: bool
  isSuggesting :: bool
  greeting :: string
  customTopic :: string
  specialType :: SpecialItemType
  contentLength :: ContentLength
  suggestedTopicsList :: "string list"
  settings :: AppSettings

subsection \<open>The greeting\<close>

text \<open>\<open>hour\<close> is \<^verbatim>\<open>new Date().getHours()\<close>.\<close>

definition updateGreeting :: "int \<Rightarrow> app_state \<Rightarrow> app_state" where
  "updateGreeting hour st =
     (if hour < 12 then st\<lparr>greeting := ''Good Morning''\<rparr>
      else if hour < 17 then st\<lparr>greeting := ''Good Afternoon''\<rparr>
      else st\<lparr>greeting := ''Good Evening''\<rparr>)"

subsection \<open>Generating a section\<close>

text \<open>The options bag the handler passes, from the state it was called in.\<close>

definition section_options :: "Section \<Rightarrow> app_state \<Rightarrow> jsval" where
  "section_options s st = JObj
     [(''specialType'', JStr (SpecialItemType_name (specialType st))),
      (''customTopic'', JStr (customTopic st)),
      (''contentLength'', JStr (ContentLength_name (contentLength st))),
      (''previousContent'', get_section s (data st))]"

definition section_request :: "browser \<Rightarrow> Section \<Rightarrow> app_state \<Rightarrow> fetch_request" where
  "section_request br s st =
     generateSection_request br s (selectedDate st) (difficulty (settings st))
       (language (settings st)) (section_options s st)"

text \<open>The two updates before the \<^verbatim>\<open>await\<close>.\<close>

definition begin_generate :: "Section \<Rightarrow> app_state \<Rightarrow> app_state" where
  "begin_generate s st =
     st\<lparr>loadingSections := (loadingSections st)(section_name s \<mapsto> True), error := None\<rparr>"

text \<open>
  What runs once the client's promise has settled with \<open>r\<close>: the updater functions are
  applied to the state \<open>cur\<close> of that moment (\<^verbatim>\<open>prev => ...\<close>). \<open>now\<close> is
  \<^verbatim>\<open>new Date().toISOString()\<close>.
\<close>

definition complete_generate ::
  "Section \<Rightarrow> string \<Rightarrow> js_error + jsval \<Rightarrow> app_state \<Rightarrow> app_state" where
  "complete_generate s now r cur =
     (case r of
        Inr result \<Rightarrow>
          cur\<lparr>data := (set_section s result (data cur))\<lparr>timestamp := now\<rparr>,
              loadingSections := (loadingSections cur)(section_name s \<mapsto> False)\<rparr>
      | Inl err \<Rightarrow>
          cur\<lparr>error := Some (''Failed to generate '' @ section_name s @ ''. Please try again.''),
              loadingSections := (loadingSections cur)(section_name s \<mapsto> False)\<rparr>)"

text \<open>What the handler does besides updating the state, in order.\<close>

datatype effect =
    Fetch fetch_request
  | Confetti "string list"
  | ConsoleError js_error

definition completion_effects :: "app_state \<Rightarrow> js_error + jsval \<Rightarrow> effect list" where
  "completion_effects st r =
     (case r of
        Inr result \<Rightarrow> [Confetti [themeColor (settings st), ''#ffffff'']]
      | Inl err \<Rightarrow> [ConsoleError err])"

text \<open>The awaited call of the client, with the values of the state the handler was called in.\<close>

definition awaited :: "browser \<Rightarrow> Section \<Rightarrow> app_state \<Rightarrow> js_error + jsval" where
  "awaited br s st =
     generateSection br s (selectedDate st) (difficulty (settings st))
       (language (settings st)) (section_options s st)"

text \<open>
  One call with nothing else changing the state while it waits: the effects and the
  state it leaves.
\<close>

definition handleGenerateSection ::
  "browser \<Rightarrow> string \<Rightarrow> Section \<Rightarrow> app_state \<Rightarrow> effect list \<times> app_state" where
  "handleGenerateSection br now s st =
     (if \<not> isOnline st then ([], st\<lparr>error := Some ''No internet connection.''\<rparr>)
      else
        (Fetch (section_request br s st) # completion_effects st (awaited br s st),
         complete_generate s now (awaited br s st) (begin_generate s st)))"

text \<open>
  The state a session starts in, given the loaded aggregate and settings, today's date and
  \<^verbatim>\<open>navigator.onLine\<close>.
\<close>

definition initial_state :: "AssemblyData \<Rightarrow> AppSettings \<Rightarrow> string \<Rightarrow> bool \<Rightarrow> app_state" where
  "initial_state d cfg today online =
     \<lparr>data = d, loadingSections = Map.empty, error = None, selectedDate = today,
      isSidebarOpen = True, isOnline = online, isSpeaking = False, isSuggesting = False,
      greeting = [], customTopic = [], specialType = Speech, contentLength = Short,
      suggestedTopicsList = [], settings = cfg\<rparr>"

section \<open>Concrete instances\<close>

text \<open>Values at which the definitions above are evaluated in the examples that follow.\<close>

definition quota_error :: js_error where
  "quota_error = JsError ''ApiError'' (JStr ''Quota exceeded'')"

definition silent_error :: js_error where
  "silent_error = JsError ''Error'' (JStr [])"

text \<open>The error of the platform's parser; its message stands for the engine's wording.\<close>

definition syntax_error :: js_error where
  "syntax_error = JsError ''SyntaxError'' (JStr ''Unexpected token in JSON'')"

definition resilient :: jsval where
  "resilient = JObj [(''word'', JStr ''Resilient'')]"

text \<open>
  \<^verbatim>\<open>JSON.parse\<close> and \<^verbatim>\<open>JSON.stringify\<close> on the texts and values of the examples:
  \<^verbatim>\<open>null\<close> and one object are read, these and zero are written; the other texts used
  are not JSON.
\<close>

definition table_parse :: "string \<Rightarrow> js_error + jsval" where
  \<open>table_parse s =
     (if s = ''null'' then Inr JNull
      else if s = ''{"word":"Resilient"}'' then Inr resilient
      else Inl syntax_error)\<close>

definition table_stringify :: "jsval \<Rightarrow> string" where
  \<open>table_stringify v =
     (if v = resilient then ''{"word":"Resilient"}''
      else if v = JNum ''0'' then ''0''
      else ''null'')\<close>

text \<open>A server environment whose provider gives the same result to every call.\<close>

definition env_with :: "provider_result \<Rightarrow> env" where
  "env_with r =
     \<lparr>generateContent = (\<lambda>c. r), randomness = ''k3x9q'',
      json_parse = table_parse, json_stringify = table_stringify\<rparr>"

text \<open>A browser whose \<^verbatim>\<open>fetch\<close> settles the same way for every request.\<close>

definition browser_with :: "js_error + http_response \<Rightarrow> browser" where
  "browser_with r = \<lparr>fetch = (\<lambda>q. r), stringify = table_stringify\<rparr>"

definition get_request :: request where
  "get_request = \<lparr>http_method = ''GET'', body = JUndefined\<rparr>"

definition post :: "jsval \<Rightarrow> request" where
  "post b = \<lparr>http_method = ''POST'', body = b\<rparr>"

definition section_body :: "string \<Rightarrow> string \<Rightarrow> jsval \<Rightarrow> jsval" where
  "section_body s l options = JObj
     [(''type'', JStr ''generateSection''), (''section'', JStr s), (''date'', JStr ''2025-01-15''),
      (''difficulty'', JStr ''Middle''), (''language'', JStr l), (''options'', options)]"

definition topics_body :: jsval where
  "topics_body = JObj
     [(''type'', JStr ''suggestTopics''), (''date'', JStr ''2025-01-15''),
      (''language'', JStr ''English'')]"

definition a_thought :: jsval where
  "a_thought = JObj [(''quote'', JStr ''Be the change.''), (''author'', JStr ''Gandhi'')]"

definition some_data :: AssemblyData where
  "some_data =
     \<lparr>word = JUndefined, thought = a_thought, news = JUndefined, special_item = JUndefined,
      celebration = JUndefined, suggested_topics = JUndefined,
      timestamp = ''2025-01-14T07:00:00.000Z''\<rparr>"

definition some_settings :: AppSettings where
  "some_settings =
     \<lparr>difficulty = Middle, language = English, themeColor = ''#6366f1'', isDarkMode = True\<rparr>"

definition state_of :: "bool \<Rightarrow> app_state" where
  "state_of online = initial_state some_data some_settings ''2025-01-15'' online"

definition zero_previous :: jsval where
  "zero_previous = JObj [(''previousContent'', JNum ''0'')]"

definition previous_resilient :: jsval where
  "previous_resilient = JObj [(''previousContent'', resilient)]"

text \<open>A request body whose section is an object with a property named \<^verbatim>\<open>toString\<close>.\<close>

definition odd_section_body :: jsval where
  "odd_section_body = JObj
     [(''type'', JStr ''generateSection''), (''section'', JObj [(''toString'', JStr ''x'')]),
      (''date'', JStr ''2025-01-15''), (''difficulty'', JStr ''Middle''),
      (''language'', JStr ''English'')]"

definition quota_body :: jsval where
  "quota_body = JObj [(''error'', JStr ''Quota exceeded'')]"

text \<open>The calls and prompts of the example requests.\<close>

definition topics_call :: provider_call where
  "topics_call =
     \<lparr>model = ''gemini-3-flash-preview'',
      contents = ''Suggest exactly 5 interesting and diverse topics for a school assembly special segment based on the date 2025-01-15. These could be related to historical events, environmental days, science, or moral values relevant to this time of year. Return the result in English as a simple JSON array of 5 strings.'',
      responseMimeType = ''application/json'',
      responseSchema = Some (ARRAY STRING)\<rparr>"

definition word_task :: string where
  "word_task = ''Generate an advanced but student-friendly English word with its meaning, antonym (opposite), synonym, and an example sentence.''"

definition english_word_prompt :: string where
  "english_word_prompt =
     prompt_text ''2025-01-15'' ''Middle'' ''English'' ''word'' word_task [] ''k3x9q''"

definition hindi_word_prompt :: string where
  "hindi_word_prompt =
     prompt_text ''2025-01-15'' ''Middle'' ''Hindi'' ''word'' word_task [] ''k3x9q''"

definition guarded_word_prompt :: string where
  "guarded_word_prompt =
     prompt_text ''2025-01-15'' ''Middle'' ''English'' ''word'' word_task
       (nl @ nl @ GUARD_HEAD @ table_stringify resilient @ GUARD_TAIL) ''k3x9q''"

definition word_call :: "string \<Rightarrow> provider_call" where
  "word_call p =
     \<lparr>model = ''gemini-3-flash-preview'', contents = p,
      responseMimeType = ''application/json'', responseSchema = Some WORD_SCHEMA\<rparr>"

definition poem_call :: provider_call where
  "poem_call =
     \<lparr>model = ''gemini-3-flash-preview'',
      contents = prompt_text ''2025-01-15'' ''Middle'' ''English'' ''poem'' [] [] ''k3x9q'',
      responseMimeType = ''application/json'', responseSchema = None\<rparr>"

definition ok_response :: "jsval \<Rightarrow> js_error + http_response" where
  "ok_response v = Inr \<lparr>ok = True, json = Inr v\<rparr>"

definition error_response :: "js_error + jsval \<Rightarrow> js_error + http_response" where
  "error_response j = Inr \<lparr>ok = False, json = j\<rparr>"


section \<open>Properties of the Generation Proxy\<close>

subsection \<open>Steps that may throw\<close>

lemma and_then_simps: "and_then (Inr x) f = f x" "and_then (Inl err) f = Inl err"
  by (simp_all add: and_then_def)

lemma and_then_Inr: "and_then r f = Inr y \<longleftrightarrow> (\<exists>x. r = Inr x \<and> f x = Inr y)"
  by (cases r) (simp_all add: and_then_def)

lemma convertible_Inr: "convertible v \<longleftrightarrow> (\<exists>t. toString_js v = Inr t)"
  by (cases "toString_js v") (simp_all add: convertible_def)

lemma conversion_error:
  "toString_js v = Inl err \<longrightarrow> err = PrimitiveError"
  "join_js xs = Inl err \<longrightarrow> err = PrimitiveError"
  by (induction v and xs rule: toString_js_join_js.induct)
    (auto split: sum.splits if_splits)

lemma not_convertible: "\<not> convertible v \<Longrightarrow> toString_js v = Inl PrimitiveError"
  using conversion_error(1) [of v] by (cases "toString_js v") (simp_all add: convertible_def)


subsection \<open>The prompt of a section\<close>

lemma template_Inr:
  "template e section date level lang options sp = Inr p \<longleftrightarrow>
   (\<exists>d f l s. toString_js date = Inr d \<and> toString_js level = Inr f
      \<and> toString_js lang = Inr l \<and> toString_js section = Inr s
      \<and> p = prompt_text d f l s sp (avoidRepetitionPrompt e options) (randomness e))"
  by (auto simp: template_def and_then_Inr)

lemma template_Inl:
  "template e section date level lang options sp = Inl err \<Longrightarrow> err = PrimitiveError"
  by (auto simp: template_def and_then_def split: sum.splits dest: conversion_error(1) [rule_format])

lemma template_throws:
  assumes "\<not> (convertible date \<and> convertible level \<and> convertible lang \<and> convertible section)"
  shows "template e section date level lang options sp = Inl PrimitiveError"
proof (cases "template e section date level lang options sp")
  case (Inl err)
  then show ?thesis
    by (simp add: template_Inl)
next
  case (Inr p)
  then have "convertible date \<and> convertible level \<and> convertible lang \<and> convertible section"
    by (auto simp: template_Inr convertible_Inr)
  with assms show ?thesis
    by simp
qed

lemma prompt_Inr:
  "generateSection_prompt e section date level lang options = Inr p \<longleftrightarrow>
   (\<exists>sch sp. section_switch section options = Inr (sch, sp)
      \<and> template e section date level lang options sp = Inr p)"
  by (auto simp: generateSection_prompt_def and_then_Inr)

lemma call_Inr:
  "generateSection_call e b = Inr c \<longleftrightarrow>
   (\<exists>sch sp p. section_switch (get_field b ''section'') (get_field b ''options'') = Inr (sch, sp)
      \<and> template e (get_field b ''section'') (get_field b ''date'') (get_field b ''difficulty'')
            (get_field b ''language'') (get_field b ''options'') sp = Inr p
      \<and> c = \<lparr>model = ''gemini-3-flash-preview'', contents = p,
               responseMimeType = ''application/json'', responseSchema = sch\<rparr>)"
  by (auto simp: generateSection_call_def and_then_Inr)

lemma call_prompt:
  "generateSection_call e b = Inr c \<Longrightarrow>
   generateSection_prompt e (get_field b ''section'') (get_field b ''date'')
     (get_field b ''difficulty'') (get_field b ''language'') (get_field b ''options'')
     = Inr (contents c)"
  by (auto simp: call_Inr prompt_Inr)

subsection \<open>The provider call and the handler's branches\<close>

lemma call_provider_thrown:
  "thrown_in_try e c d = Some err \<Longrightarrow>
   call_provider e c d =
     Response 500 (JObj [(''error'', if truthy (message err) then message err else JStr ''Internal Server Error'')])"
  by (auto simp: thrown_in_try_def call_provider_def caught_def error_body_def orelse_def
      split: provider_result.splits sum.splits)

lemma call_provider_parsed:
  "generateContent e c = Reply t \<Longrightarrow> JSON_parse (json_parse e) (text_or t d) = Inr v \<Longrightarrow>
   call_provider e c d = Response 200 v"
  by (simp add: call_provider_def)

lemma call_provider_status:
  "status (call_provider e c d) = Some 200 \<or> status (call_provider e c d) = Some 500"
  by (simp add: call_provider_def caught_def split: provider_result.splits sum.splits)

lemma caught_PrimitiveError:
  "caught PrimitiveError
     = Response 500 (JObj [(''error'', JStr ''Cannot convert object to primitive value'')])"
  by (simp add: caught_def PrimitiveError_def error_body_def orelse_def)

lemma handler_suggestTopics:
  "http_method req = ''POST'' \<Longrightarrow> \<not> nullish (body req) \<Longrightarrow>
   get_field (body req) ''type'' = JStr ''suggestTopics'' \<Longrightarrow>
   handler e req =
     (case suggestTopics_call (body req) of
        Inl err \<Rightarrow> ([], caught err)
      | Inr c \<Rightarrow> ([c], call_provider e c ''[]''))"
  by (simp add: handler_def)

lemma handler_generateSection:
  "http_method req = ''POST'' \<Longrightarrow> \<not> nullish (body req) \<Longrightarrow>
   get_field (body req) ''type'' = JStr ''generateSection'' \<Longrightarrow>
   handler e req =
     (case generateSection_call e (body req) of
        Inl err \<Rightarrow> ([], caught err)
      | Inr c \<Rightarrow> ([c], call_provider e c ''{}''))"
  by (simp add: handler_def)

lemma post_simps: "http_method (post b) = ''POST''" "body (post b) = b"
  by (simp_all add: post_def)

lemma thrown_env_with_Throws: "thrown_in_try (env_with (Throws err)) c d = Some err"
  by (simp add: thrown_in_try_def env_with_def)

lemma text_or_empty: "t = None \<or> t = Some [] \<Longrightarrow> text_or t d = d"
  by (auto simp: text_or_def)

lemma example_bodies:
  "\<not> nullish topics_body" "get_field topics_body ''type'' = JStr ''suggestTopics''"
  "\<not> nullish (section_body s l options)"
  "get_field (section_body s l options) ''type'' = JStr ''generateSection''"
  "get_field (section_body s l options) ''section'' = JStr s"
  "get_field (section_body s l options) ''language'' = JStr l"
  "get_field (section_body s l options) ''options'' = options"
  "get_field (section_body s l options) ''date'' = JStr ''2025-01-15''"
  "get_field (section_body s l options) ''difficulty'' = JStr ''Middle''"
  by (simp_all add: nullish_def topics_body_def section_body_def)

lemma env_with_simps:
  "generateContent (env_with r) c = r" "randomness (env_with r) = ''k3x9q''"
  "json_parse (env_with r) = table_parse" "json_stringify (env_with r) = table_stringify"
  by (simp_all add: env_with_def)

lemma topics_call_example:
  "suggestTopics_call topics_body = Inr topics_call"
  by (simp add: suggestTopics_call_def suggestTopics_prompt_def topics_body_def topics_call_def
      and_then_simps)

lemma section_switch_unrecognised:
  "\<not> recognised section \<Longrightarrow> section_switch section options = Inr (None, [])"
  by (simp add: recognised_def section_switch_def)

lemma word_call_example:
  "\<not> truthy (opt_field options ''previousContent'') \<Longrightarrow>
   generateSection_call (env_with r) (section_body ''word'' ''English'' options)
     = Inr (word_call english_word_prompt)"
  by (simp add: generateSection_call_def section_switch_def template_def and_then_simps
      example_bodies env_with_simps avoidRepetitionPrompt_def word_call_def
      english_word_prompt_def word_task_def)

lemma poem_call_example:
  "generateSection_call (env_with r) (section_body ''poem'' ''English'' JUndefined)
     = Inr poem_call"
  by (simp add: generateSection_call_def section_switch_def template_def and_then_simps
      example_bodies env_with_simps avoidRepetitionPrompt_def poem_call_def opt_field_def
      nullish_def)

lemma odd_section_body_simps:
  "\<not> nullish odd_section_body"
  "get_field odd_section_body ''type'' = JStr ''generateSection''"
  "get_field odd_section_body ''section'' = JObj [(''toString'', JStr ''x'')]"
  by (simp_all add: odd_section_body_def nullish_def)

subsection \<open>Failure responses\<close>

text \<open>
  Claim C4, as amended. A request whose method is not POST is answered with status 405 and
  the body \<^verbatim>\<open>{ "error": "Method not allowed" }\<close>, and no provider call is made. A POST
  whose body is neither null nor undefined and whose \<^verbatim>\<open>type\<close> is neither
  \<^verbatim>\<open>suggestTopics\<close> nor \<^verbatim>\<open>generateSection\<close> is answered with status 400 and
  \<^verbatim>\<open>{ "error": "Invalid request type" }\<close>. In either mode, an exception raised by the
  provider call or by parsing its text is answered with status 500 and the exception's
  message, or "Internal Server Error" when the message is undefined or empty.
\<close>

theorem proxy_error_responses:
  "(http_method req \<noteq> ''POST'' \<longrightarrow>
      handler e req = ([], Response 405 (JObj [(''error'', JStr ''Method not allowed'')])))
   \<and> (http_method req = ''POST'' \<and> \<not> nullish (body req)
        \<and> get_field (body req) ''type'' \<noteq> JStr ''suggestTopics''
        \<and> get_field (body req) ''type'' \<noteq> JStr ''generateSection'' \<longrightarrow>
      handler e req = ([], Response 400 (JObj [(''error'', JStr ''Invalid request type'')])))
   \<and> (\<forall>c err. http_method req = ''POST'' \<and> \<not> nullish (body req)
        \<and> get_field (body req) ''type'' = JStr ''suggestTopics''
        \<and> suggestTopics_call (body req) = Inr c
        \<and> thrown_in_try e c ''[]'' = Some err \<longrightarrow>
      snd (handler e req) = Response 500 (JObj [(''error'',
        if truthy (message err) then message err else JStr ''Internal Server Error'')]))
   \<and> (\<forall>c err. http_method req = ''POST'' \<and> \<not> nullish (body req)
        \<and> get_field (body req) ''type'' = JStr ''generateSection''
        \<and> generateSection_call e (body req) = Inr c
        \<and> thrown_in_try e c ''{}'' = Some err \<longrightarrow>
      snd (handler e req) = Response 500 (JObj [(''error'',
        if truthy (message err) then message err else JStr ''Internal Server Error'')]))"
proof (intro conjI allI impI)
  assume "http_method req \<noteq> ''POST''"
  then show "handler e req = ([], Response 405 (JObj [(''error'', JStr ''Method not allowed'')]))"
    by (simp add: handler_def error_body_def)
next
  assume "http_method req = ''POST'' \<and> \<not> nullish (body req)
        \<and> get_field (body req) ''type'' \<noteq> JStr ''suggestTopics''
        \<and> get_field (body req) ''type'' \<noteq> JStr ''generateSection''"
  then show "handler e req = ([], Response 400 (JObj [(''error'', JStr ''Invalid request type'')]))"
    by (simp add: handler_def error_body_def)
next
  fix c err
  assume a: "http_method req = ''POST'' \<and> \<not> nullish (body req)
        \<and> get_field (body req) ''type'' = JStr ''suggestTopics''
        \<and> suggestTopics_call (body req) = Inr c
        \<and> thrown_in_try e c ''[]'' = Some err"
  then have "snd (handler e req) = call_provider e c ''[]''"
    by (simp add: handler_suggestTopics)
  with a show "snd (handler e req) = Response 500 (JObj [(''error'',
        if truthy (message err) then message err else JStr ''Internal Server Error'')])"
    by (simp add: call_provider_thrown)
next
  fix c err
  assume a: "http_method req = ''POST'' \<and> \<not> nullish (body req)
        \<and> get_field (body req) ''type'' = JStr ''generateSection''
        \<and> generateSection_call e (body req) = Inr c
        \<and> thrown_in_try e c ''{}'' = Some err"
  then have "snd (handler e req) = call_provider e c ''{}''"
    by (simp add: handler_generateSection)
  with a show "snd (handler e req) = Response 500 (JObj [(''error'',
        if truthy (message err) then message err else JStr ''Internal Server Error'')])"
    by (simp add: call_provider_thrown)
qed

theorem proxy_error_responses_witness:
  "handler (env_with (Reply None)) get_request
     = ([], Response 405 (JObj [(''error'', JStr ''Method not allowed'')]))
   \<and> handler (env_with (Reply None)) (post (JObj [(''type'', JStr ''unknown'')]))
     = ([], Response 400 (JObj [(''error'', JStr ''Invalid request type'')]))
   \<and> snd (handler (env_with (Throws quota_error)) (post topics_body))
     = Response 500 (JObj [(''error'', JStr ''Quota exceeded'')])
   \<and> snd (handler (env_with (Throws silent_error)) (post (section_body ''word'' ''English'' JUndefined)))
     = Response 500 (JObj [(''error'', JStr ''Internal Server Error'')])
   \<and> snd (handler (env_with (Reply (Some ''<html>''))) (post (section_body ''word'' ''English'' JUndefined)))
     = Response 500 (JObj [(''error'', JStr ''Unexpected token in JSON'')])"
proof -
  have m: "http_method get_request \<noteq> ''POST''"
    by (simp add: get_request_def)
  have u: "\<not> nullish (JObj [(''type'', JStr ''unknown'')])"
    "get_field (JObj [(''type'', JStr ''unknown'')]) ''type'' \<noteq> JStr ''suggestTopics''"
    "get_field (JObj [(''type'', JStr ''unknown'')]) ''type'' \<noteq> JStr ''generateSection''"
    by (simp_all add: nullish_def)
  have w: "generateSection_call (env_with r) (section_body ''word'' ''English'' JUndefined)
      = Inr (word_call english_word_prompt)" for r
    by (rule word_call_example) (simp add: opt_field_def nullish_def)
  have p: "thrown_in_try (env_with (Reply (Some ''<html>''))) c ''{}'' = Some syntax_error" for c
    by (simp add: thrown_in_try_def env_with_def text_or_def JSON_parse_def table_parse_def)
  have msgs: "message quota_error = JStr ''Quota exceeded''" "message silent_error = JStr []"
    "message syntax_error = JStr ''Unexpected token in JSON''"
    by (simp_all add: quota_error_def silent_error_def syntax_error_def)
  show ?thesis
    using proxy_error_responses [of get_request "env_with (Reply None)"]
      proxy_error_responses [of "post (JObj [(''type'', JStr ''unknown'')])" "env_with (Reply None)"]
      proxy_error_responses [of "post topics_body" "env_with (Throws quota_error)"]
      proxy_error_responses [of "post (section_body ''word'' ''English'' JUndefined)" "env_with (Throws silent_error)"]
      proxy_error_responses [of "post (section_body ''word'' ''English'' JUndefined)" "env_with (Reply (Some ''<html>''))"]
      m u w p msgs
    by (simp add: post_simps thrown_env_with_Throws example_bodies topics_call_example)
qed

text \<open>
  Claim C4 as stated fails for a POST that carries no body: its \<^verbatim>\<open>type\<close> is neither of
  the two names, and the destructuring before the \<^verbatim>\<open>try\<close> throws, so no response with
  status 400 is sent.
\<close>

theorem bodyless_post_uncaught:
  "http_method (post JNull) = ''POST''
   \<and> get_field (body (post JNull)) ''type'' \<noteq> JStr ''suggestTopics''
   \<and> get_field (body (post JNull)) ''type'' \<noteq> JStr ''generateSection''
   \<and> handler (env_with (Reply None)) (post JNull) = ([], Uncaught TypeError)
   \<and> status (snd (handler (env_with (Reply None)) (post JNull))) \<noteq> Some 400"
  by (simp add: handler_def post_def nullish_def)

subsection \<open>Empty provider text\<close>

text \<open>
  Claim C9. When the provider returns a response whose text is undefined or empty, the
  handler answers with status 200: the body is the empty array in \<^verbatim>\<open>suggestTopics\<close> mode
  and the empty object in \<^verbatim>\<open>generateSection\<close> mode, an object that has none of the
  fields of the section's record.
\<close>

theorem empty_text_success:
  "(\<forall>c t. http_method req = ''POST'' \<and> \<not> nullish (body req)
        \<and> get_field (body req) ''type'' = JStr ''suggestTopics''
        \<and> suggestTopics_call (body req) = Inr c
        \<and> generateContent e c = Reply t
        \<and> (t = None \<or> t = Some []) \<longrightarrow>
      snd (handler e req) = Response 200 (JArr []))
   \<and> (\<forall>c t. http_method req = ''POST'' \<and> \<not> nullish (body req)
        \<and> get_field (body req) ''type'' = JStr ''generateSection''
        \<and> generateSection_call e (body req) = Inr c
        \<and> generateContent e c = Reply t
        \<and> (t = None \<or> t = Some []) \<longrightarrow>
      snd (handler e req) = Response 200 (JObj [])
      \<and> (\<forall>k. get_field (JObj []) k = JUndefined))"
proof (intro conjI allI impI)
  fix c t
  assume a: "http_method req = ''POST'' \<and> \<not> nullish (body req)
        \<and> get_field (body req) ''type'' = JStr ''suggestTopics''
        \<and> suggestTopics_call (body req) = Inr c
        \<and> generateContent e c = Reply t
        \<and> (t = None \<or> t = Some [])"
  then have "text_or t ''[]'' = ''[]''"
    by (simp add: text_or_empty)
  then have "JSON_parse (json_parse e) (text_or t ''[]'') = Inr (JArr [])"
    by (simp add: JSON_parse_def)
  with a have "call_provider e c ''[]'' = Response 200 (JArr [])"
    by (simp add: call_provider_parsed)
  with a show "snd (handler e req) = Response 200 (JArr [])"
    by (simp add: handler_suggestTopics)
next
  fix c t
  assume a: "http_method req = ''POST'' \<and> \<not> nullish (body req)
        \<and> get_field (body req) ''type'' = JStr ''generateSection''
        \<and> generateSection_call e (body req) = Inr c
        \<and> generateContent e c = Reply t
        \<and> (t = None \<or> t = Some [])"
  then have "text_or t ''{}'' = ''{}''"
    by (simp add: text_or_empty)
  then have "JSON_parse (json_parse e) (text_or t ''{}'') = Inr (JObj [])"
    by (simp add: JSON_parse_def)
  with a have "call_provider e c ''{}'' = Response 200 (JObj [])"
    by (simp add: call_provider_parsed)
  with a show "snd (handler e req) = Response 200 (JObj [])"
    by (simp add: handler_generateSection)
next
  fix c t k
  show "get_field (JObj []) k = JUndefined"
    by simp
qed

theorem empty_text_success_witness:
  "snd (handler (env_with (Reply None)) (post topics_body)) = Response 200 (JArr [])
   \<and> snd (handler (env_with (Reply (Some []))) (post topics_body)) = Response 200 (JArr [])
   \<and> snd (handler (env_with (Reply None)) (post (section_body ''word'' ''English'' JUndefined)))
       = Response 200 (JObj [])
   \<and> snd (handler (env_with (Reply (Some []))) (post (section_body ''word'' ''English'' JUndefined)))
       = Response 200 (JObj [])
   \<and> get_field (JObj []) ''word'' = JUndefined"
proof -
  have w: "generateSection_call (env_with r) (section_body ''word'' ''English'' JUndefined)
      = Inr (word_call english_word_prompt)" for r
    by (rule word_call_example) (simp add: opt_field_def nullish_def)
  show ?thesis
    using empty_text_success [of "post topics_body" "env_with (Reply None)"]
      empty_text_success [of "post topics_body" "env_with (Reply (Some []))"]
      empty_text_success [of "post (section_body ''word'' ''English'' JUndefined)" "env_with (Reply None)"]
      empty_text_success [of "post (section_body ''word'' ''English'' JUndefined)" "env_with (Reply (Some []))"]
      w
    by (simp add: post_simps example_bodies env_with_simps topics_call_example)
qed

subsection \<open>Unrecognised section names\<close>

text \<open>
  Claim C10, as amended. For a POST of type \<^verbatim>\<open>generateSection\<close> whose \<^verbatim>\<open>section\<close> is
  none of the five names, the \<^verbatim>\<open>switch\<close> leaves the task instruction empty and the
  schema undefined, and the answer is never a 4xx response. When the date, the difficulty,
  the language and the section convert to strings, the handler calls the provider once,
  with a prompt whose task line carries no instruction, and answers with status 200 and
  whatever the provider's text parses to, or with status 500 when the call or the parse
  throws. When one of them does not convert, building the prompt throws inside the
  \<^verbatim>\<open>try\<close>: the handler answers with status 500 and that error's message, and makes no
  provider call.
\<close>

theorem unrecognised_section_falls_through:
  "http_method req = ''POST'' \<and> \<not> nullish (body req)
   \<and> get_field (body req) ''type'' = JStr ''generateSection''
   \<and> \<not> recognised (get_field (body req) ''section'') \<longrightarrow>
     section_switch (get_field (body req) ''section'') (get_field (body req) ''options'')
       = Inr (None, [])
     \<and> (convertible (get_field (body req) ''date'')
          \<and> convertible (get_field (body req) ''difficulty'')
          \<and> convertible (get_field (body req) ''language'')
          \<and> convertible (get_field (body req) ''section'') \<longrightarrow>
        (\<exists>c. generateSection_call e (body req) = Inr c
           \<and> fst (handler e req) = [c]
           \<and> responseSchema c = None
           \<and> sublist (''Task: '' @ avoidRepetitionPrompt e (get_field (body req) ''options'')
                @ prompt_tail (randomness e)) (contents c)
           \<and> (\<forall>t v. generateContent e c = Reply t
                \<and> JSON_parse (json_parse e) (text_or t ''{}'') = Inr v \<longrightarrow>
                  snd (handler e req) = Response 200 v)
           \<and> (\<forall>err. thrown_in_try e c ''{}'' = Some err \<longrightarrow>
                  snd (handler e req) = Response 500 (JObj [(''error'',
                    if truthy (message err) then message err else JStr ''Internal Server Error'')]))))
     \<and> (\<not> (convertible (get_field (body req) ''date'')
            \<and> convertible (get_field (body req) ''difficulty'')
            \<and> convertible (get_field (body req) ''language'')
            \<and> convertible (get_field (body req) ''section'')) \<longrightarrow>
        handler e req
          = ([], Response 500 (JObj [(''error'', JStr ''Cannot convert object to primitive value'')])))
     \<and> (status (snd (handler e req)) = Some 200 \<or> status (snd (handler e req)) = Some 500)"
proof (intro impI)
  let ?b = "body req"
  let ?conv = "convertible (get_field ?b ''date'') \<and> convertible (get_field ?b ''difficulty'')
      \<and> convertible (get_field ?b ''language'') \<and> convertible (get_field ?b ''section'')"
  let ?tmpl = "template e (get_field ?b ''section'') (get_field ?b ''date'')
      (get_field ?b ''difficulty'') (get_field ?b ''language'') (get_field ?b ''options'') []"
  assume a: "http_method req = ''POST'' \<and> \<not> nullish ?b
   \<and> get_field ?b ''type'' = JStr ''generateSection''
   \<and> \<not> recognised (get_field ?b ''section'')"
  then have sw: "section_switch (get_field ?b ''section'') (get_field ?b ''options'') = Inr (None, [])"
    by (simp add: section_switch_unrecognised)
  from a have run: "handler e req =
     (case generateSection_call e ?b of
        Inl err \<Rightarrow> ([], caught err)
      | Inr c \<Rightarrow> ([c], call_provider e c ''{}''))"
    by (simp add: handler_generateSection)
  have call: "generateSection_call e ?b = and_then ?tmpl (\<lambda>p. Inr
       \<lparr>model = ''gemini-3-flash-preview'', contents = p,
        responseMimeType = ''application/json'', responseSchema = None\<rparr>)"
    by (simp add: generateSection_call_def sw and_then_simps)
  have good: "\<exists>c. generateSection_call e ?b = Inr c
           \<and> fst (handler e req) = [c]
           \<and> responseSchema c = None
           \<and> sublist (''Task: '' @ avoidRepetitionPrompt e (get_field ?b ''options'')
                @ prompt_tail (randomness e)) (contents c)
           \<and> (\<forall>t v. generateContent e c = Reply t
                \<and> JSON_parse (json_parse e) (text_or t ''{}'') = Inr v \<longrightarrow>
                  snd (handler e req) = Response 200 v)
           \<and> (\<forall>err. thrown_in_try e c ''{}'' = Some err \<longrightarrow>
                  snd (handler e req) = Response 500 (JObj [(''error'',
                    if truthy (message err) then message err else JStr ''Internal Server Error'')]))"
    if conv: ?conv
  proof -
    from conv obtain d f l s where texts: "toString_js (get_field ?b ''date'') = Inr d"
      "toString_js (get_field ?b ''difficulty'') = Inr f"
      "toString_js (get_field ?b ''language'') = Inr l"
      "toString_js (get_field ?b ''section'') = Inr s"
      by (auto simp: convertible_Inr)
    let ?p = "prompt_text d f l s [] (avoidRepetitionPrompt e (get_field ?b ''options'')) (randomness e)"
    let ?c = "\<lparr>model = ''gemini-3-flash-preview'', contents = ?p,
        responseMimeType = ''application/json'', responseSchema = None\<rparr>"
    have t: "?tmpl = Inr ?p"
      using texts by (simp add: template_Inr)
    have c: "generateSection_call e ?b = Inr ?c"
      by (simp add: call t and_then_simps)
    have "?p = (prompt_head d f @ ind @ ''Primary Language: '' @ l @ ''.'' @ nl
         @ ind @ nl @ ind @ LANGUAGE_RULE @ nl @ ind @ nl
         @ ind @ ''Section: '' @ s @ ''.'' @ nl @ ind)
        @ (''Task: '' @ avoidRepetitionPrompt e (get_field ?b ''options'') @ prompt_tail (randomness e))"
      by (simp add: prompt_text_def)
    then have task: "sublist (''Task: '' @ avoidRepetitionPrompt e (get_field ?b ''options'')
          @ prompt_tail (randomness e)) ?p"
      by (simp only: sublist_append_leftI)
    have r: "handler e req = ([?c], call_provider e ?c ''{}'')"
      by (simp add: run c)
    show ?thesis
      using task by (intro exI [of _ ?c]) (simp add: c r call_provider_parsed call_provider_thrown)
  qed
  have bad: "handler e req
      = ([], Response 500 (JObj [(''error'', JStr ''Cannot convert object to primitive value'')]))"
    if "\<not> ?conv"
  proof -
    from that have "?tmpl = Inl PrimitiveError"
      by (rule template_throws)
    then have "generateSection_call e ?b = Inl PrimitiveError"
      by (simp add: call and_then_simps)
    then show ?thesis
      by (simp add: run caught_PrimitiveError)
  qed
  have st: "status (snd (handler e req)) = Some 200 \<or> status (snd (handler e req)) = Some 500"
  proof (cases "generateSection_call e ?b")
    case (Inl err)
    then show ?thesis
      by (simp add: run caught_def)
  next
    case (Inr c)
    then show ?thesis
      using call_provider_status [of e c "''{}''"] by (simp add: run)
  qed
  from sw good bad st
  show "section_switch (get_field ?b ''section'') (get_field ?b ''options'') = Inr (None, [])
     \<and> (?conv \<longrightarrow>
        (\<exists>c. generateSection_call e ?b = Inr c
           \<and> fst (handler e req) = [c]
           \<and> responseSchema c = None
           \<and> sublist (''Task: '' @ avoidRepetitionPrompt e (get_field ?b ''options'')
                @ prompt_tail (randomness e)) (contents c)
           \<and> (\<forall>t v. generateContent e c = Reply t
                \<and> JSON_parse (json_parse e) (text_or t ''{}'') = Inr v \<longrightarrow>
                  snd (handler e req) = Response 200 v)
           \<and> (\<forall>err. thrown_in_try e c ''{}'' = Some err \<longrightarrow>
                  snd (handler e req) = Response 500 (JObj [(''error'',
                    if truthy (message err) then message err else JStr ''Internal Server Error'')]))))
     \<and> (\<not> ?conv \<longrightarrow>
        handler e req
          = ([], Response 500 (JObj [(''error'', JStr ''Cannot convert object to primitive value'')])))
     \<and> (status (snd (handler e req)) = Some 200 \<or> status (snd (handler e req)) = Some 500)"
    by blast
qed

theorem unrecognised_section_falls_through_witness:
  "\<not> recognised (JStr ''poem'')
   \<and> handler (env_with (Reply (Some ''null''))) (post (section_body ''poem'' ''English'' JUndefined))
       = ([poem_call], Response 200 JNull)
   \<and> responseSchema poem_call = None
   \<and> handler (env_with (Throws quota_error)) (post (section_body ''poem'' ''English'' JUndefined))
       = ([poem_call], Response 500 (JObj [(''error'', JStr ''Quota exceeded'')]))
   \<and> \<not> recognised (JObj [(''toString'', JStr ''x'')])
   \<and> \<not> convertible (JObj [(''toString'', JStr ''x'')])
   \<and> handler (env_with (Reply (Some ''null''))) (post odd_section_body)
       = ([], Response 500 (JObj [(''error'', JStr ''Cannot convert object to primitive value'')]))"
proof -
  have r: "\<not> recognised (JStr ''poem'')" "\<not> recognised (JObj [(''toString'', JStr ''x'')])"
    by (simp_all add: recognised_def)
  have cv: "convertible (JStr s)" "\<not> convertible (JObj [(''toString'', JStr ''x'')])" for s
    by (simp_all add: convertible_def)
  have p: "JSON_parse table_parse (text_or (Some ''null'') ''{}'') = Inr JNull"
    by (simp add: JSON_parse_def text_or_def table_parse_def)
  have m: "message quota_error = JStr ''Quota exceeded''"
    by (simp add: quota_error_def)
  have s: "responseSchema poem_call = None"
    by (simp add: poem_call_def)
  have ok: "handler (env_with (Reply (Some ''null''))) (post (section_body ''poem'' ''English'' JUndefined))
       = ([poem_call], Response 200 JNull)"
    using unrecognised_section_falls_through [of "post (section_body ''poem'' ''English'' JUndefined)" "env_with (Reply (Some ''null''))"]
      r cv p
    by (auto simp: post_simps example_bodies env_with_simps poem_call_example prod_eq_iff)
  have ko: "handler (env_with (Throws quota_error)) (post (section_body ''poem'' ''English'' JUndefined))
       = ([poem_call], Response 500 (JObj [(''error'', JStr ''Quota exceeded'')]))"
    using unrecognised_section_falls_through [of "post (section_body ''poem'' ''English'' JUndefined)" "env_with (Throws quota_error)"]
      r cv m
    by (auto simp: post_simps example_bodies env_with_simps poem_call_example prod_eq_iff
        thrown_env_with_Throws)
  have odd: "handler (env_with (Reply (Some ''null''))) (post odd_section_body)
       = ([], Response 500 (JObj [(''error'', JStr ''Cannot convert object to primitive value'')]))"
    using unrecognised_section_falls_through [of "post odd_section_body" "env_with (Reply (Some ''null''))"]
      r cv
    by (simp add: post_simps odd_section_body_simps)
  from r cv ok ko odd s show ?thesis
    by simp
qed

text \<open>
  Claim C10 as stated fails for a section that is an object with a property named
  \<^verbatim>\<open>toString\<close>: it is none of the five names, and the handler answers with status 500
  without calling the provider.
\<close>

theorem unconvertible_section_no_provider_call:
  "http_method (post odd_section_body) = ''POST''
   \<and> get_field odd_section_body ''type'' = JStr ''generateSection''
   \<and> \<not> recognised (get_field odd_section_body ''section'')
   \<and> fst (handler (env_with (Reply (Some ''null''))) (post odd_section_body)) = []
   \<and> snd (handler (env_with (Reply (Some ''null''))) (post odd_section_body))
       = Response 500 (JObj [(''error'', JStr ''Cannot convert object to primitive value'')])"
  by (simp add: handler_def post_simps odd_section_body_simps recognised_def env_with_simps
      generateSection_call_def section_switch_def template_def and_then_simps
      odd_section_body_def caught_PrimitiveError nullish_def)

subsection \<open>The language rule\<close>

lemma prompt_text_contains_LANGUAGE_RULE:
  "sublist LANGUAGE_RULE (prompt_text d f l s sp avoid r)"
proof -
  have "prompt_text d f l s sp avoid r
      = (prompt_head d f @ ind @ ''Primary Language: '' @ l @ ''.'' @ nl @ ind @ nl @ ind)
        @ LANGUAGE_RULE
        @ (nl @ ind @ nl @ ind @ ''Section: '' @ s @ ''.'' @ nl
           @ ind @ ''Task: '' @ sp @ avoid @ prompt_tail r)"
    by (simp add: prompt_text_def)
  then show ?thesis
    by (simp only: sublist_appendI)
qed

lemma prompt_text_splits_at_language:
  "prompt_text d f l s sp avoid r
     = (prompt_head d f @ ind @ ''Primary Language: '')
       @ l
       @ (''.'' @ nl @ ind @ nl @ ind @ LANGUAGE_RULE @ nl @ ind @ nl
          @ ind @ ''Section: '' @ s @ ''.'' @ nl
          @ ind @ ''Task: '' @ sp @ avoid @ prompt_tail r)"
  by (simp add: prompt_text_def)

lemma prompt_text_names_language:
  "sublist (''Primary Language: '' @ l @ ''.'') (prompt_text d f l s sp avoid r)"
proof -
  have "prompt_text d f l s sp avoid r
      = (prompt_head d f @ ind)
        @ (''Primary Language: '' @ l @ ''.'')
        @ (nl @ ind @ nl @ ind @ LANGUAGE_RULE @ nl @ ind @ nl
          @ ind @ ''Section: '' @ s @ ''.'' @ nl
          @ ind @ ''Task: '' @ sp @ avoid @ prompt_tail r)"
    by (simp add: prompt_text_def)
  then show ?thesis
    by (simp only: sublist_appendI)
qed

lemma prompt_contains_LANGUAGE_RULE:
  "generateSection_prompt e section date level lang options = Inr p \<Longrightarrow> sublist LANGUAGE_RULE p"
  by (auto simp: prompt_Inr template_Inr prompt_text_contains_LANGUAGE_RULE)

lemma example_prompt:
  "\<not> truthy (opt_field options ''previousContent'') \<Longrightarrow>
   generateSection_prompt (env_with r) (JStr ''word'') (JStr ''2025-01-15'') (JStr ''Middle'')
      (JStr ''English'') options = Inr english_word_prompt"
  by (simp add: generateSection_prompt_def section_switch_def template_def and_then_simps
      env_with_simps avoidRepetitionPrompt_def english_word_prompt_def word_task_def)

text \<open>
  Claim C1, as amended. For every section and every value of the language, Hindi and
  English included, every constructed prompt contains one and the same rule: that if the
  primary language is "Hindi" all text content is to be in Hindi script (Devanagari), with
  a Hindi word, meaning and usage for the word of the day. It also contains the line naming
  the primary language, and the prompts of two languages differ in that name only. The same
  holds for the prompt of the call the handler makes.
\<close>

theorem language_rule_in_every_prompt:
  "(\<forall>p. generateSection_prompt e section date level lang options = Inr p \<longrightarrow>
      sublist LANGUAGE_RULE p
      \<and> (\<forall>l. toString_js lang = Inr l \<longrightarrow> sublist (''Primary Language: '' @ l @ ''.'') p))
   \<and> (\<forall>c. generateSection_call e b = Inr c \<longrightarrow> sublist LANGUAGE_RULE (contents c))
   \<and> (\<forall>lang' p p' l l'.
        generateSection_prompt e section date level lang options = Inr p
        \<and> generateSection_prompt e section date level lang' options = Inr p'
        \<and> toString_js lang = Inr l \<and> toString_js lang' = Inr l' \<longrightarrow>
        (\<exists>before after. p = before @ l @ after \<and> p' = before @ l' @ after))"
proof (intro conjI allI impI)
  fix p
  assume "generateSection_prompt e section date level lang options = Inr p"
  then show "sublist LANGUAGE_RULE p"
    by (rule prompt_contains_LANGUAGE_RULE)
next
  fix p l
  assume "generateSection_prompt e section date level lang options = Inr p"
    and "toString_js lang = Inr l"
  then obtain d f s sp where
    "p = prompt_text d f l s sp (avoidRepetitionPrompt e options) (randomness e)"
    by (auto simp: prompt_Inr template_Inr)
  then show "sublist (''Primary Language: '' @ l @ ''.'') p"
    by (simp only: prompt_text_names_language)
next
  fix c
  assume "generateSection_call e b = Inr c"
  then have "generateSection_prompt e (get_field b ''section'') (get_field b ''date'')
      (get_field b ''difficulty'') (get_field b ''language'') (get_field b ''options'')
      = Inr (contents c)"
    by (rule call_prompt)
  then show "sublist LANGUAGE_RULE (contents c)"
    by (rule prompt_contains_LANGUAGE_RULE)
next
  fix lang' p p' l l'
  assume a: "generateSection_prompt e section date level lang options = Inr p
        \<and> generateSection_prompt e section date level lang' options = Inr p'
        \<and> toString_js lang = Inr l \<and> toString_js lang' = Inr l'"
  then obtain sch sp d f s where
    p: "p = prompt_text d f l s sp (avoidRepetitionPrompt e options) (randomness e)"
    and sw: "section_switch section options = Inr (sch, sp)"
    and texts: "toString_js date = Inr d" "toString_js level = Inr f" "toString_js section = Inr s"
    by (auto simp: prompt_Inr template_Inr)
  from a sw texts have p': "p' = prompt_text d f l' s sp (avoidRepetitionPrompt e options) (randomness e)"
    by (auto simp: prompt_Inr template_Inr)
  show "\<exists>before after. p = before @ l @ after \<and> p' = before @ l' @ after"
    unfolding p p' using prompt_text_splits_at_language by blast
qed

theorem language_rule_in_every_prompt_witness:
  "generateSection_prompt (env_with (Reply None)) (JStr ''word'') (JStr ''2025-01-15'')
      (JStr ''Middle'') (JStr ''Hindi'') JUndefined = Inr hindi_word_prompt
   \<and> sublist LANGUAGE_RULE hindi_word_prompt
   \<and> sublist ''Primary Language: Hindi.'' hindi_word_prompt
   \<and> sublist LANGUAGE_RULE english_word_prompt
   \<and> sublist ''Primary Language: English.'' english_word_prompt
   \<and> (\<exists>before after. hindi_word_prompt = before @ ''Hindi'' @ after
         \<and> english_word_prompt = before @ ''English'' @ after)"
proof -
  have u: "\<not> truthy (opt_field JUndefined ''previousContent'')"
    by (simp add: opt_field_def nullish_def)
  have h: "generateSection_prompt (env_with (Reply None)) (JStr ''word'') (JStr ''2025-01-15'')
      (JStr ''Middle'') (JStr ''Hindi'') JUndefined = Inr hindi_word_prompt"
    using u by (simp add: generateSection_prompt_def section_switch_def template_def and_then_simps
      env_with_simps avoidRepetitionPrompt_def hindi_word_prompt_def word_task_def)
  have en: "generateSection_prompt (env_with (Reply None)) (JStr ''word'') (JStr ''2025-01-15'')
      (JStr ''Middle'') (JStr ''English'') JUndefined = Inr english_word_prompt"
    using u by (rule example_prompt)
  note hindi = language_rule_in_every_prompt [of "env_with (Reply None)" "JStr ''word''"
        "JStr ''2025-01-15''" "JStr ''Middle''" "JStr ''Hindi''" JUndefined]
  note english = language_rule_in_every_prompt [of "env_with (Reply None)" "JStr ''word''"
        "JStr ''2025-01-15''" "JStr ''Middle''" "JStr ''English''" JUndefined]
  have texts: "toString_js (JStr ''Hindi'') = Inr ''Hindi''"
    "toString_js (JStr ''English'') = Inr ''English''"
    by simp_all
  from hindi h texts have rule_hi: "sublist LANGUAGE_RULE hindi_word_prompt"
    and name_hi: "sublist (''Primary Language: '' @ ''Hindi'' @ ''.'') hindi_word_prompt"
    by blast+
  from english en texts have rule_en: "sublist LANGUAGE_RULE english_word_prompt"
    and name_en: "sublist (''Primary Language: '' @ ''English'' @ ''.'') english_word_prompt"
    by blast+
  from hindi h en texts have same: "\<exists>before after. hindi_word_prompt = before @ ''Hindi'' @ after
         \<and> english_word_prompt = before @ ''English'' @ after"
    by blast
  from h rule_hi name_hi rule_en name_en same show ?thesis
    by simp
qed

text \<open>
  Claim C1 as stated fails for English: the prompt the handler sends for the word section
  of an English request contains the rule.
\<close>

theorem english_prompt_has_language_rule:
  "get_field (section_body ''word'' ''English'' JUndefined) ''language'' = JStr ''English''
   \<and> fst (handler (env_with (Reply None)) (post (section_body ''word'' ''English'' JUndefined)))
       = [word_call english_word_prompt]
   \<and> contents (word_call english_word_prompt) = english_word_prompt
   \<and> sublist LANGUAGE_RULE english_word_prompt"
proof -
  have "generateSection_call (env_with (Reply None)) (section_body ''word'' ''English'' JUndefined)
      = Inr (word_call english_word_prompt)"
    by (rule word_call_example) (simp add: opt_field_def nullish_def)
  then show ?thesis
    by (simp add: handler_generateSection post_simps example_bodies word_call_def
        english_word_prompt_def prompt_text_contains_LANGUAGE_RULE)
qed

subsection \<open>The repetition guard\<close>

lemma guard_in_prompt:
  assumes "truthy (opt_field options ''previousContent'')"
    and "generateSection_prompt e section date level lang options = Inr p"
  shows "sublist (nl @ nl @ GUARD_HEAD @ json_stringify e (get_field options ''previousContent'') @ GUARD_TAIL) p"
proof -
  from assms(2) obtain d f l s sp where
    p: "p = prompt_text d f l s sp (avoidRepetitionPrompt e options) (randomness e)"
    by (auto simp: prompt_Inr template_Inr)
  have "p = (prompt_head d f @ ind @ ''Primary Language: '' @ l
           @ ''.'' @ nl @ ind @ nl @ ind @ LANGUAGE_RULE @ nl @ ind @ nl
           @ ind @ ''Section: '' @ s @ ''.'' @ nl
           @ ind @ ''Task: '' @ sp)
        @ (nl @ nl @ GUARD_HEAD @ json_stringify e (get_field options ''previousContent'') @ GUARD_TAIL)
        @ prompt_tail (randomness e)"
    using assms(1) by (simp add: p prompt_text_def avoidRepetitionPrompt_def)
  then show ?thesis
    by (simp only: sublist_appendI)
qed

lemma no_guard_text:
  "\<not> truthy (opt_field options ''previousContent'') \<Longrightarrow> avoidRepetitionPrompt e options = []"
  by (simp add: avoidRepetitionPrompt_def)

lemma percent_in_GUARD_TAIL: "CHR ''%'' \<in> set GUARD_TAIL"
  by (simp add: GUARD_TAIL_def)

lemma percent_not_fixed:
  "CHR ''%'' \<notin> set nl" "CHR ''%'' \<notin> set ind" "CHR ''%'' \<notin> set LANGUAGE_RULE"
  by (simp_all add: nl_def ind_def LANGUAGE_RULE_def)

lemma percent_not_prompt_text:
  "CHR ''%'' \<notin> set d \<Longrightarrow> CHR ''%'' \<notin> set f \<Longrightarrow> CHR ''%'' \<notin> set l \<Longrightarrow> CHR ''%'' \<notin> set s \<Longrightarrow>
   CHR ''%'' \<notin> set sp \<Longrightarrow> CHR ''%'' \<notin> set r \<Longrightarrow>
   CHR ''%'' \<notin> set (prompt_text d f l s sp [] r)"
  by (simp add: prompt_text_def prompt_head_def prompt_tail_def percent_not_fixed)

lemma percent_not_lengthText: "CHR ''%'' \<notin> set (lengthText options)"
  by (simp add: lengthText_def)

lemma percent_not_topicText:
  assumes "topicText options = Inr topic"
    and "\<forall>t. toString_js (opt_field options ''customTopic'') = Inr t \<longrightarrow> CHR ''%'' \<notin> set t"
  shows "CHR ''%'' \<notin> set topic"
proof (cases "truthy (opt_field options ''customTopic'')")
  case False
  with assms(1) show ?thesis
    by (simp add: topicText_def)
next
  case True
  then have "opt_field options ''customTopic'' = get_field options ''customTopic''"
    by (auto simp: opt_field_def split: if_splits)
  with True assms show ?thesis
    by (auto simp: topicText_def and_then_Inr)
qed

lemma percent_not_task:
  assumes "section_switch section options = Inr (sch, sp)"
    and "\<forall>t. toString_js (orelse (opt_field options ''specialType'') (JStr ''Speech'')) = Inr t
          \<longrightarrow> CHR ''%'' \<notin> set t"
    and "\<forall>t. toString_js (opt_field options ''customTopic'') = Inr t \<longrightarrow> CHR ''%'' \<notin> set t"
  shows "CHR ''%'' \<notin> set sp"
proof (cases "section = JStr ''special_item''")
  case False
  with assms(1) show ?thesis
    by (auto simp: section_switch_def split: if_splits)
next
  case True
  with assms(1) obtain topic kind where "topicText options = Inr topic"
    and "toString_js (orelse (opt_field options ''specialType'') (JStr ''Speech'')) = Inr kind"
    and sp: \<open>sp = ''Generate a special assembly segment of type "'' @ kind
           @ ''" '' @ topic @ ''. The content should be '' @ lengthText options
           @ ''. If it's a quiz, include the answer.''\<close>
    by (auto simp: section_switch_def and_then_Inr)
  with assms(2,3) have "CHR ''%'' \<notin> set kind" "CHR ''%'' \<notin> set topic"
    by (auto dest: percent_not_topicText)
  then show ?thesis
    by (simp add: sp percent_not_lengthText)
qed

lemma texts_of_Inr: "toString_js v = Inr t \<Longrightarrow> set (texts_of v) = {t}"
  by (simp add: texts_of_def)

lemma no_guard_clause:
  assumes "\<not> truthy (opt_field options ''previousContent'')"
    and "\<forall>t \<in> set (request_texts e section date level lang options). CHR ''%'' \<notin> set t"
    and "generateSection_prompt e section date level lang options = Inr p"
  shows "\<not> sublist (GUARD_HEAD @ x @ GUARD_TAIL) p"
proof
  assume "sublist (GUARD_HEAD @ x @ GUARD_TAIL) p"
  then have "set (GUARD_HEAD @ x @ GUARD_TAIL) \<subseteq> set p"
    by (rule set_mono_sublist)
  with percent_in_GUARD_TAIL have inp: "CHR ''%'' \<in> set p"
    by auto
  from assms(3) obtain sch sp d f l s where
    sw: "section_switch section options = Inr (sch, sp)"
    and texts: "toString_js date = Inr d" "toString_js level = Inr f"
      "toString_js lang = Inr l" "toString_js section = Inr s"
    and p: "p = prompt_text d f l s sp (avoidRepetitionPrompt e options) (randomness e)"
    by (auto simp: prompt_Inr template_Inr)
  from assms(2) texts have free: "CHR ''%'' \<notin> set d" "CHR ''%'' \<notin> set f" "CHR ''%'' \<notin> set l"
    "CHR ''%'' \<notin> set s" "CHR ''%'' \<notin> set (randomness e)"
    by (simp_all add: request_texts_def texts_of_Inr)
  from assms(2) have
    "\<forall>t. toString_js (orelse (opt_field options ''specialType'') (JStr ''Speech'')) = Inr t
          \<longrightarrow> CHR ''%'' \<notin> set t"
    "\<forall>t. toString_js (opt_field options ''customTopic'') = Inr t \<longrightarrow> CHR ''%'' \<notin> set t"
    by (auto simp: request_texts_def texts_of_def)
  with sw have "CHR ''%'' \<notin> set sp"
    by (rule percent_not_task)
  with free have "CHR ''%'' \<notin> set p"
    by (simp add: p no_guard_text [OF assms(1)] percent_not_prompt_text)
  with inp show False
    by simp
qed

lemma percent_not_english_word_prompt: "CHR ''%'' \<notin> set english_word_prompt"
  by (simp add: english_word_prompt_def word_task_def percent_not_prompt_text)

text \<open>
  Claim C6, as amended. When \<^verbatim>\<open>options.previousContent\<close> is truthy (an object, an array,
  a non-empty string, a non-zero number or true), every constructed prompt contains the
  guard clause with the exact serialisation of the previous content in it. When it is
  absent or falsy (undefined, null, false, zero or the empty string), nothing is inserted
  after the task instruction, and the prompt contains no guard clause, provided that no
  text taken from the request contains a percent sign (as the clause's last sentence does;
  a request text could quote the clause itself).
\<close>

theorem repetition_guard_when_truthy:
  "(\<not> truthy (opt_field options ''previousContent'') \<longrightarrow> avoidRepetitionPrompt e options = [])
   \<and> (\<forall>p. generateSection_prompt e section date level lang options = Inr p \<longrightarrow>
        (truthy (opt_field options ''previousContent'') \<longrightarrow>
           sublist (nl @ nl @ GUARD_HEAD @ json_stringify e (get_field options ''previousContent'')
              @ GUARD_TAIL) p)
        \<and> (\<not> truthy (opt_field options ''previousContent'')
             \<and> (\<forall>t \<in> set (request_texts e section date level lang options). CHR ''%'' \<notin> set t) \<longrightarrow>
             (\<forall>x. \<not> sublist (GUARD_HEAD @ x @ GUARD_TAIL) p)))"
proof (intro conjI allI impI)
  assume "\<not> truthy (opt_field options ''previousContent'')"
  then show "avoidRepetitionPrompt e options = []"
    by (rule no_guard_text)
next
  fix p
  assume "generateSection_prompt e section date level lang options = Inr p"
    and "truthy (opt_field options ''previousContent'')"
  then show "sublist (nl @ nl @ GUARD_HEAD @ json_stringify e (get_field options ''previousContent'')
              @ GUARD_TAIL) p"
    by (intro guard_in_prompt)
next
  fix p x
  assume "generateSection_prompt e section date level lang options = Inr p"
    and "\<not> truthy (opt_field options ''previousContent'')
             \<and> (\<forall>t \<in> set (request_texts e section date level lang options). CHR ''%'' \<notin> set t)"
  then show "\<not> sublist (GUARD_HEAD @ x @ GUARD_TAIL) p"
    by (intro no_guard_clause) simp_all
qed

theorem repetition_guard_when_truthy_witness:
  "truthy (opt_field previous_resilient ''previousContent'')
   \<and> generateSection_prompt (env_with (Reply None)) (JStr ''word'') (JStr ''2025-01-15'')
        (JStr ''Middle'') (JStr ''English'') previous_resilient = Inr guarded_word_prompt
   \<and> sublist (nl @ nl @ GUARD_HEAD @ table_stringify resilient @ GUARD_TAIL) guarded_word_prompt
   \<and> \<not> truthy (opt_field JUndefined ''previousContent'')
   \<and> avoidRepetitionPrompt (env_with (Reply None)) JUndefined = []
   \<and> generateSection_prompt (env_with (Reply None)) (JStr ''word'') (JStr ''2025-01-15'')
        (JStr ''Middle'') (JStr ''English'') JUndefined = Inr english_word_prompt
   \<and> \<not> sublist (GUARD_HEAD @ table_stringify resilient @ GUARD_TAIL) english_word_prompt"
proof -
  have t: "truthy (opt_field previous_resilient ''previousContent'')"
    "get_field previous_resilient ''previousContent'' = resilient"
    by (simp_all add: previous_resilient_def opt_field_def nullish_def resilient_def)
  have u: "\<not> truthy (opt_field JUndefined ''previousContent'')"
    by (simp add: opt_field_def nullish_def)
  have g: "generateSection_prompt (env_with (Reply None)) (JStr ''word'') (JStr ''2025-01-15'')
        (JStr ''Middle'') (JStr ''English'') previous_resilient = Inr guarded_word_prompt"
    using t by (simp add: generateSection_prompt_def section_switch_def template_def and_then_simps
      env_with_simps avoidRepetitionPrompt_def guarded_word_prompt_def word_task_def)
  have en: "generateSection_prompt (env_with (Reply None)) (JStr ''word'') (JStr ''2025-01-15'')
        (JStr ''Middle'') (JStr ''English'') JUndefined = Inr english_word_prompt"
    using u by (rule example_prompt)
  have free: "\<forall>t \<in> set (request_texts (env_with (Reply None)) (JStr ''word'') (JStr ''2025-01-15'')
      (JStr ''Middle'') (JStr ''English'') JUndefined). CHR ''%'' \<notin> set t"
    by (simp add: request_texts_def texts_of_def env_with_simps orelse_def opt_field_def nullish_def)
  show ?thesis
    using repetition_guard_when_truthy [of previous_resilient "env_with (Reply None)" "JStr ''word''"
        "JStr ''2025-01-15''" "JStr ''Middle''" "JStr ''English''"]
      repetition_guard_when_truthy [of JUndefined "env_with (Reply None)" "JStr ''word''"
        "JStr ''2025-01-15''" "JStr ''Middle''" "JStr ''English''"]
      t u g en free
    by (simp add: env_with_simps)
qed

text \<open>
  Claim C6 as stated fails when the previous content supplied is the number zero: the
  prompt the handler sends contains no guard clause with its serialisation.
\<close>

theorem falsy_previousContent_no_guard:
  "get_field zero_previous ''previousContent'' = JNum ''0''
   \<and> fst (handler (env_with (Reply None)) (post (section_body ''word'' ''English'' zero_previous)))
       = [word_call english_word_prompt]
   \<and> contents (word_call english_word_prompt) = english_word_prompt
   \<and> \<not> sublist (GUARD_HEAD @ json_stringify (env_with (Reply None)) (JNum ''0'') @ GUARD_TAIL)
       english_word_prompt"
proof -
  have f: "\<not> truthy (opt_field zero_previous ''previousContent'')"
    by (simp add: zero_previous_def opt_field_def nullish_def)
  then have c: "generateSection_call (env_with (Reply None)) (section_body ''word'' ''English'' zero_previous)
      = Inr (word_call english_word_prompt)"
    by (rule word_call_example)
  have "\<not> sublist (GUARD_HEAD @ x @ GUARD_TAIL) english_word_prompt" for x
  proof
    assume "sublist (GUARD_HEAD @ x @ GUARD_TAIL) english_word_prompt"
    then have "set (GUARD_HEAD @ x @ GUARD_TAIL) \<subseteq> set english_word_prompt"
      by (rule set_mono_sublist)
    with percent_in_GUARD_TAIL percent_not_english_word_prompt show False
      by auto
  qed
  with c show ?thesis
    by (simp add: handler_generateSection post_simps example_bodies word_call_def zero_previous_def)
qed

section \<open>Properties of the application shell\<close>

subsection \<open>Sections of the aggregate\<close>

lemma section_name_inj: "section_name a = section_name b \<Longrightarrow> a = b"
  by (cases a; cases b) simp_all











subsection \<open>The greeting\<close>

text \<open>
  Claim C8. For every hour of the day the greeting is "Good Morning" for the hours 0 to 11,
  "Good Afternoon" for 12 to 16 and "Good Evening" for 17 to 23; nothing else of the state
  changes. Hour 12 is the first afternoon hour and hour 17 the first evening hour.
\<close>

theorem updateGreeting_boundaries:
  "(0 \<le> hour \<and> hour \<le> 11 \<longrightarrow> updateGreeting hour st = st\<lparr>greeting := ''Good Morning''\<rparr>)
   \<and> (12 \<le> hour \<and> hour \<le> 16 \<longrightarrow> updateGreeting hour st = st\<lparr>greeting := ''Good Afternoon''\<rparr>)
   \<and> (17 \<le> hour \<and> hour \<le> 23 \<longrightarrow> updateGreeting hour st = st\<lparr>greeting := ''Good Evening''\<rparr>)"
  by (simp add: updateGreeting_def)

theorem updateGreeting_boundaries_witness:
  "greeting (updateGreeting 0 (state_of True)) = ''Good Morning''
   \<and> greeting (updateGreeting 11 (state_of True)) = ''Good Morning''
   \<and> greeting (updateGreeting 12 (state_of True)) = ''Good Afternoon''
   \<and> greeting (updateGreeting 16 (state_of True)) = ''Good Afternoon''
   \<and> greeting (updateGreeting 17 (state_of True)) = ''Good Evening''
   \<and> greeting (updateGreeting 23 (state_of True)) = ''Good Evening''"
  using updateGreeting_boundaries [of 0 "state_of True"]
    updateGreeting_boundaries [of 11 "state_of True"]
    updateGreeting_boundaries [of 12 "state_of True"]
    updateGreeting_boundaries [of 16 "state_of True"]
    updateGreeting_boundaries [of 17 "state_of True"]
    updateGreeting_boundaries [of 23 "state_of True"]
  by simp

subsection \<open>Generating a section while offline\<close>

text \<open>
  Claim C5. For every section, a call of \<open>handleGenerateSection\<close> while the offline flag is
  set has no effect outside the state (so no request is sent), sets the error message to
  "No internet connection.", and leaves the loading flags and the aggregate as they were.
\<close>

theorem offline_short_circuit:
  assumes "\<not> isOnline st"
  shows "fst (handleGenerateSection br now s st) = []
    \<and> error (snd (handleGenerateSection br now s st)) = Some ''No internet connection.''
    \<and> loadingSections (snd (handleGenerateSection br now s st)) = loadingSections st
    \<and> data (snd (handleGenerateSection br now s st)) = data st
    \<and> snd (handleGenerateSection br now s st) = st\<lparr>error := Some ''No internet connection.''\<rparr>"
  using assms by (simp add: handleGenerateSection_def)

theorem offline_short_circuit_witness:
  "\<not> isOnline (state_of False)
   \<and> fst (handleGenerateSection (browser_with (ok_response resilient)) ''2025-01-15T07:00:00.000Z'' SecWord (state_of False)) = []
   \<and> error (snd (handleGenerateSection (browser_with (ok_response resilient)) ''2025-01-15T07:00:00.000Z'' SecWord (state_of False)))
       = Some ''No internet connection.''
   \<and> data (snd (handleGenerateSection (browser_with (ok_response resilient)) ''2025-01-15T07:00:00.000Z'' SecWord (state_of False)))
       = some_data"
proof -
  have off: "\<not> isOnline (state_of False)"
    by (simp add: state_of_def initial_state_def)
  have d: "data (state_of False) = some_data"
    by (simp add: state_of_def initial_state_def)
  show ?thesis
    using off d offline_short_circuit [OF off, of "browser_with (ok_response resilient)" "''2025-01-15T07:00:00.000Z''" SecWord]
    by simp
qed

subsection \<open>Frame of generating a section\<close>



section \<open>Properties of the Generation Client\<close>

lemma read_response_not_ok:
  assumes "\<not> ok response"
  shows "(\<exists>err. read_response g (Inr response) = Inl err)
    \<and> (\<forall>b m. json response = Inr b \<and> get_field b ''error'' = JStr m \<and> m \<noteq> [] \<longrightarrow>
          read_response g (Inr response) = Inl (JsError ''Error'' (JStr m)))
    \<and> (\<forall>b. json response = Inr b \<and> \<not> nullish b \<and> \<not> truthy (get_field b ''error'') \<longrightarrow>
          read_response g (Inr response) = Inl (JsError ''Error'' (JStr g)))
    \<and> (\<forall>err. json response = Inl err \<longrightarrow> read_response g (Inr response) = Inl err)"
proof (intro conjI allI impI)
  show "\<exists>err. read_response g (Inr response) = Inl err"
    using assms by (simp add: read_response_def split: sum.splits)
next
  fix b m
  assume a: "json response = Inr b \<and> get_field b ''error'' = JStr m \<and> m \<noteq> []"
  then have "\<not> nullish b"
    by (auto simp: nullish_def)
  with a assms show "read_response g (Inr response) = Inl (JsError ''Error'' (JStr m))"
    by (simp add: read_response_def new_Error_def orelse_def and_then_simps)
next
  fix b
  assume "json response = Inr b \<and> \<not> nullish b \<and> \<not> truthy (get_field b ''error'')"
  with assms show "read_response g (Inr response) = Inl (JsError ''Error'' (JStr g))"
    by (simp add: read_response_def new_Error_def orelse_def and_then_simps)
next
  fix err
  assume "json response = Inl err"
  with assms show "read_response g (Inr response) = Inl err"
    by (simp add: read_response_def)
qed

lemma browser_with_simps: "fetch (browser_with r) q = r" "stringify (browser_with r) = table_stringify"
  by (simp_all add: browser_with_def)

text \<open>
  Claim C2, as amended. For every response that is not a success, \<open>generateSection\<close> and
  \<open>suggestTopics\<close> raise an error. Its message is the Proxy's error string when the body
  parses to a value whose \<^verbatim>\<open>error\<close> is a non-empty string; it is the operation's generic
  message when the body parses to a value other than null whose \<^verbatim>\<open>error\<close> is absent or
  falsy; and when the body cannot be parsed the rejection of \<^verbatim>\<open>response.json()\<close> is
  raised as it is.
\<close>

theorem client_error_messages:
  "(\<forall>response. fetch br (generateSection_request br s date d l options) = Inr response
       \<and> \<not> ok response \<longrightarrow>
      (\<exists>err. generateSection br s date d l options = Inl err)
      \<and> (\<forall>b m. json response = Inr b \<and> get_field b ''error'' = JStr m \<and> m \<noteq> [] \<longrightarrow>
            generateSection br s date d l options = Inl (JsError ''Error'' (JStr m)))
      \<and> (\<forall>b. json response = Inr b \<and> \<not> nullish b \<and> \<not> truthy (get_field b ''error'') \<longrightarrow>
            generateSection br s date d l options
              = Inl (JsError ''Error'' (JStr ''Failed to generate content'')))
      \<and> (\<forall>err. json response = Inl err \<longrightarrow> generateSection br s date d l options = Inl err))
   \<and> (\<forall>response. fetch br (suggestTopics_request br date l) = Inr response
       \<and> \<not> ok response \<longrightarrow>
      (\<exists>err. suggestTopics br date l = Inl err)
      \<and> (\<forall>b m. json response = Inr b \<and> get_field b ''error'' = JStr m \<and> m \<noteq> [] \<longrightarrow>
            suggestTopics br date l = Inl (JsError ''Error'' (JStr m)))
      \<and> (\<forall>b. json response = Inr b \<and> \<not> nullish b \<and> \<not> truthy (get_field b ''error'') \<longrightarrow>
            suggestTopics br date l = Inl (JsError ''Error'' (JStr ''Failed to suggest topics'')))
      \<and> (\<forall>err. json response = Inl err \<longrightarrow> suggestTopics br date l = Inl err))"
proof (rule conjI; rule allI; rule impI)
  fix response
  assume a: "fetch br (generateSection_request br s date d l options) = Inr response \<and> \<not> ok response"
  then have eq: "generateSection br s date d l options
      = read_response ''Failed to generate content'' (Inr response)"
    by (simp add: generateSection_def)
  from a have "\<not> ok response"
    by simp
  then show "(\<exists>err. generateSection br s date d l options = Inl err)
      \<and> (\<forall>b m. json response = Inr b \<and> get_field b ''error'' = JStr m \<and> m \<noteq> [] \<longrightarrow>
            generateSection br s date d l options = Inl (JsError ''Error'' (JStr m)))
      \<and> (\<forall>b. json response = Inr b \<and> \<not> nullish b \<and> \<not> truthy (get_field b ''error'') \<longrightarrow>
            generateSection br s date d l options
              = Inl (JsError ''Error'' (JStr ''Failed to generate content'')))
      \<and> (\<forall>err. json response = Inl err \<longrightarrow> generateSection br s date d l options = Inl err)"
    unfolding eq by (rule read_response_not_ok)
next
  fix response
  assume a: "fetch br (suggestTopics_request br date l) = Inr response \<and> \<not> ok response"
  then have eq: "suggestTopics br date l = read_response ''Failed to suggest topics'' (Inr response)"
    by (simp add: suggestTopics_def)
  from a have "\<not> ok response"
    by simp
  then show "(\<exists>err. suggestTopics br date l = Inl err)
      \<and> (\<forall>b m. json response = Inr b \<and> get_field b ''error'' = JStr m \<and> m \<noteq> [] \<longrightarrow>
            suggestTopics br date l = Inl (JsError ''Error'' (JStr m)))
      \<and> (\<forall>b. json response = Inr b \<and> \<not> nullish b \<and> \<not> truthy (get_field b ''error'') \<longrightarrow>
            suggestTopics br date l = Inl (JsError ''Error'' (JStr ''Failed to suggest topics'')))
      \<and> (\<forall>err. json response = Inl err \<longrightarrow> suggestTopics br date l = Inl err)"
    unfolding eq by (rule read_response_not_ok)
qed

theorem client_error_messages_witness:
  "generateSection (browser_with (error_response (Inr quota_body))) SecWord ''2025-01-15''
        Middle English JUndefined = Inl (JsError ''Error'' (JStr ''Quota exceeded''))
   \<and> generateSection (browser_with (error_response (Inr (JObj [])))) SecWord ''2025-01-15''
        Middle English JUndefined = Inl (JsError ''Error'' (JStr ''Failed to generate content''))
   \<and> generateSection (browser_with (error_response (Inl syntax_error))) SecWord ''2025-01-15''
        Middle English JUndefined = Inl syntax_error
   \<and> suggestTopics (browser_with (error_response (Inr quota_body))) ''2025-01-15'' English
        = Inl (JsError ''Error'' (JStr ''Quota exceeded''))
   \<and> suggestTopics (browser_with (error_response (Inr (JObj [])))) ''2025-01-15'' English
        = Inl (JsError ''Error'' (JStr ''Failed to suggest topics''))
   \<and> suggestTopics (browser_with (error_response (Inl syntax_error))) ''2025-01-15'' English
        = Inl syntax_error"
proof -
  have q: "get_field quota_body ''error'' = JStr ''Quota exceeded''"
    by (simp add: quota_body_def)
  have e: "\<not> nullish (JObj [])" "\<not> truthy (get_field (JObj []) ''error'')"
    by (simp_all add: nullish_def)
  show ?thesis
    using client_error_messages [of "browser_with (error_response (Inr quota_body))" SecWord
        "''2025-01-15''" Middle English JUndefined]
      client_error_messages [of "browser_with (error_response (Inr (JObj [])))" SecWord
        "''2025-01-15''" Middle English JUndefined]
      client_error_messages [of "browser_with (error_response (Inl syntax_error))" SecWord
        "''2025-01-15''" Middle English JUndefined]
      q e
    by (simp add: browser_with_simps error_response_def)
qed

text \<open>
  Claim C2 as stated fails for an error body that cannot be parsed: both operations raise
  the parser's error, not the generic message.
\<close>

theorem unparseable_error_body_propagates:
  "json \<lparr>ok = False, json = Inl syntax_error\<rparr> = Inl syntax_error
   \<and> generateSection (browser_with (error_response (Inl syntax_error))) SecWord ''2025-01-15''
        Middle English JUndefined
      = Inl (JsError ''SyntaxError'' (JStr ''Unexpected token in JSON''))
   \<and> suggestTopics (browser_with (error_response (Inl syntax_error))) ''2025-01-15'' English
      = Inl (JsError ''SyntaxError'' (JStr ''Unexpected token in JSON''))"
  by (simp add: generateSection_def suggestTopics_def read_response_def browser_with_simps
      error_response_def syntax_error_def)

section \<open>Properties of the initial state\<close>

text \<open>
  Claim C3, as amended. When the entry \<^verbatim>\<open>assembly_settings_v2\<close> is absent or empty the
  loaded settings are the default record, and when \<^verbatim>\<open>assembly_data_v2\<close> is absent or
  empty the loaded aggregate is the empty one stamped with the current time. When an entry
  holds a non-empty text, the loaded value is what \<^verbatim>\<open>JSON.parse\<close> yields for it, and
  loading fails with the parser's exception when the text is not JSON.
\<close>

theorem initial_state_from_storage:
  "(localStorage ''assembly_settings_v2'' = None \<or> localStorage ''assembly_settings_v2'' = Some [] \<longrightarrow>
      init_settings p localStorage = Inr default_settings)
   \<and> (localStorage ''assembly_data_v2'' = None \<or> localStorage ''assembly_data_v2'' = Some [] \<longrightarrow>
      init_data p now localStorage = Inr (JObj [(''timestamp'', JStr now)]))
   \<and> (\<forall>saved. localStorage ''assembly_settings_v2'' = Some saved \<and> saved \<noteq> [] \<longrightarrow>
      init_settings p localStorage = JSON_parse p saved)
   \<and> (\<forall>saved. localStorage ''assembly_data_v2'' = Some saved \<and> saved \<noteq> [] \<longrightarrow>
      init_data p now localStorage = JSON_parse p saved)"
  by (auto simp: init_settings_def init_data_def)

theorem initial_state_from_storage_witness:
  "init_settings table_parse Map.empty = Inr default_settings
   \<and> init_data table_parse ''2025-01-15T07:00:00.000Z'' Map.empty
       = Inr (JObj [(''timestamp'', JStr ''2025-01-15T07:00:00.000Z'')])
   \<and> init_settings table_parse [''assembly_settings_v2'' \<mapsto> []] = Inr default_settings
   \<and> init_settings table_parse [''assembly_settings_v2'' \<mapsto> ''null''] = Inr JNull
   \<and> init_data table_parse ''2025-01-15T07:00:00.000Z'' [''assembly_data_v2'' \<mapsto> ''{oops'']
       = Inl syntax_error"
proof -
  have p: "JSON_parse table_parse ''null'' = Inr JNull"
    "JSON_parse table_parse ''{oops'' = Inl syntax_error"
    by (simp_all add: JSON_parse_def table_parse_def)
  show ?thesis
    using initial_state_from_storage [of Map.empty table_parse "''2025-01-15T07:00:00.000Z''"]
      initial_state_from_storage [of "[''assembly_settings_v2'' \<mapsto> []]" table_parse "''2025-01-15T07:00:00.000Z''"]
      initial_state_from_storage [of "[''assembly_settings_v2'' \<mapsto> ''null'']" table_parse "''2025-01-15T07:00:00.000Z''"]
      initial_state_from_storage [of "[''assembly_data_v2'' \<mapsto> ''{oops'']" table_parse "''2025-01-15T07:00:00.000Z''"]
      p
    by simp
qed

text \<open>
  Claim C3 as stated fails for malformed content: loading the settings, and loading the
  aggregate, raises the parser's error.
\<close>

theorem malformed_storage_fails:
  "table_parse ''{oops'' = Inl syntax_error
   \<and> init_settings table_parse [''assembly_settings_v2'' \<mapsto> ''{oops''] = Inl syntax_error
   \<and> init_data table_parse ''2025-01-15T07:00:00.000Z'' [''assembly_data_v2'' \<mapsto> ''{oops'']
       = Inl syntax_error"
  by (simp add: init_settings_def init_data_def JSON_parse_def table_parse_def)

end
